theory Spec2Isabelle
  imports Complex_Main "HOL-Library.AList"
begin

section \<open>Values of the JavaScript runtime\<close>

text \<open>
  The client is JavaScript: every value the decoder touches is dynamically typed, and a
  read such as \<^verbatim>\<open>candidate[12][1]\<close> is defined on any value (it yields
  \<^verbatim>\<open>undefined\<close> on most, and throws a TypeError on \<^verbatim>\<open>null\<close> and
  \<^verbatim>\<open>undefined\<close>). The model therefore works on one type of runtime values,
  the values that \<^verbatim>\<open>JSON.parse\<close> can build plus \<^verbatim>\<open>undefined\<close>.

  A number is an IEEE double. Every finite double is a rational, so \<open>Fin q\<close> can hold it
  exactly; the negative zero, the two infinities and NaN are values of their own.
  A string is a \<^typ>\<open>string\<close>: one \<^typ>\<open>char\<close> stands for one UTF-16 code unit, which
  covers the code units up to 0xFF. An object is the list of its own properties; a hole
  of an array reads as \<^verbatim>\<open>undefined\<close> and is kept as \<open>JUndefined\<close>.
\<close>

datatype jsnum = Fin rat | NegZero | PosInf | NegInf | NaN

datatype jsval =
    JUndefined
  | JNull
  | JBool bool
  | JNum jsnum
  | JStr string
  | JArr "jsval list"
  | JObj "(string \<times> jsval) list"

text \<open>
  What the code throws. \<open>Error m\<close> is \<^verbatim>\<open>new Error(m)\<close>; \<open>TypeError\<close> and
  \<open>SyntaxError\<close> are thrown by the runtime; \<open>AxiosError code message status\<close> is a
  rejection of the HTTP library, with its \<^verbatim>\<open>code\<close>, its \<^verbatim>\<open>message\<close> and
  the status of its \<^verbatim>\<open>response\<close>, each when present.
\<close>

datatype failure =
    Error string
  | TypeError
  | SyntaxError
  | AxiosError "string option" string "nat option"

text \<open>
  The parts of the runtime that the model leaves open, because they are floating-point
  conversions or texts that differ between engines: \<^verbatim>\<open>JSON.parse\<close> on a string
  (\<open>None\<close> is its SyntaxError), the conversion of a number to a string, the conversion of
  a string to a number, the message of an error the runtime throws, and the
  \<^verbatim>\<open>URL\<close> constructor (\<open>None\<close> is its TypeError).
\<close>

record parsedUrl =
  protocol :: string
  hostname :: string
  port :: "nat option"
  username :: string
  password :: string

record engine =
  JSON_parse :: "string \<Rightarrow> jsval option"
  Number_toString :: "jsnum \<Rightarrow> string"
  StringToNumber :: "string \<Rightarrow> jsnum"
  engineMessage :: "failure \<Rightarrow> string"
  URL_new :: "string \<Rightarrow> parsedUrl option"

fun message :: "engine \<Rightarrow> failure \<Rightarrow> string" where
  "message E (Error m) = m"
| "message E (AxiosError c m s) = m"
| "message E TypeError = engineMessage E TypeError"
| "message E SyntaxError = engineMessage E SyntaxError"

fun truthy :: "jsval \<Rightarrow> bool" where
  "truthy JUndefined = False"
| "truthy JNull = False"
| "truthy (JBool b) = b"
| "truthy (JNum n) = (n \<noteq> Fin 0 \<and> n \<noteq> NegZero \<and> n \<noteq> NaN)"
| "truthy (JStr s) = (s \<noteq> [])"
| "truthy (JArr xs) = True"
| "truthy (JObj kvs) = True"

definition digitChar :: "nat \<Rightarrow> char" where
  "digitChar d = char_of (48 + d)"

fun decimal :: "nat \<Rightarrow> string" where
  "decimal n = (if n < 10 then [digitChar n] else decimal (n div 10) @ [digitChar (n mod 10)])"

declare decimal.simps [simp del]

text \<open>\<^verbatim>\<open>v[i]\<close> for an index \<open>i\<close> written as a number.\<close>

fun getIdx :: "jsval \<Rightarrow> nat \<Rightarrow> failure + jsval" where
  "getIdx JUndefined i = Inl TypeError"
| "getIdx JNull i = Inl TypeError"
| "getIdx (JBool b) i = Inr JUndefined"
| "getIdx (JNum n) i = Inr JUndefined"
| "getIdx (JStr s) i = Inr (if i < length s then JStr [s ! i] else JUndefined)"
| "getIdx (JArr xs) i = Inr (if i < length xs then xs ! i else JUndefined)"
| "getIdx (JObj kvs) i = Inr (case map_of kvs (decimal i) of Some x \<Rightarrow> x | None \<Rightarrow> JUndefined)"

text \<open>\<^verbatim>\<open>v.length\<close>.\<close>

fun getLength :: "jsval \<Rightarrow> failure + jsval" where
  "getLength JUndefined = Inl TypeError"
| "getLength JNull = Inl TypeError"
| "getLength (JBool b) = Inr JUndefined"
| "getLength (JNum n) = Inr JUndefined"
| "getLength (JStr s) = Inr (JNum (Fin (of_nat (length s))))"
| "getLength (JArr xs) = Inr (JNum (Fin (of_nat (length xs))))"
| "getLength (JObj kvs) = Inr (case map_of kvs ''length'' of Some x \<Rightarrow> x | None \<Rightarrow> JUndefined)"

text \<open>
  \<^verbatim>\<open>v[i] = x\<close> in strict code (a class body is strict): it throws on
  \<^verbatim>\<open>null\<close>, \<^verbatim>\<open>undefined\<close> and on every primitive; on an array it
  overwrites slot \<open>i\<close>, growing the array with holes when \<open>i\<close> is beyond its end.
\<close>

fun setIdx :: "jsval \<Rightarrow> nat \<Rightarrow> jsval \<Rightarrow> failure + jsval" where
  "setIdx (JArr xs) i x =
     Inr (JArr (if i < length xs then xs[i := x]
                else xs @ replicate (i - length xs) JUndefined @ [x]))"
| "setIdx (JObj kvs) i x = Inr (JObj (AList.update (decimal i) x kvs))"
| "setIdx v i x = Inl TypeError"

definition isArray :: "jsval \<Rightarrow> bool" where
  "isArray v = (case v of JArr xs \<Rightarrow> True | _ \<Rightarrow> False)"

text \<open>\<^verbatim>\<open>for (const x of v)\<close>: the values it runs through, or its TypeError.\<close>

definition iterate :: "jsval \<Rightarrow> failure + jsval list" where
  "iterate v = (case v of JArr xs \<Rightarrow> Inr xs
                | JStr s \<Rightarrow> Inr (map (\<lambda>c. JStr [c]) s)
                | _ \<Rightarrow> Inl TypeError)"

text \<open>
  The receiver of a call of a string method (\<^verbatim>\<open>match\<close>, \<^verbatim>\<open>split\<close>):
  only a string has one; on any other value the call throws a TypeError.
\<close>

definition stringReceiver :: "jsval \<Rightarrow> failure + string" where
  "stringReceiver v = (case v of JStr s \<Rightarrow> Inr s | _ \<Rightarrow> Inl TypeError)"

definition numberToString :: "engine \<Rightarrow> jsnum \<Rightarrow> string" where
  "numberToString E n =
     (case n of
        NegZero \<Rightarrow> ''0''
      | PosInf \<Rightarrow> ''Infinity''
      | NegInf \<Rightarrow> ''-Infinity''
      | NaN \<Rightarrow> ''NaN''
      | Fin q \<Rightarrow>
          (if q = of_int \<lfloor>q\<rfloor> \<and> \<bar>q\<bar> \<le> 2 ^ 53
           then (if q < 0 then ''-'' else []) @ decimal (nat \<bar>\<lfloor>q\<rfloor>\<bar>)
           else Number_toString E n))"

text \<open>
  The conversion of a value to a string. An array joins its elements with commas,
  \<^verbatim>\<open>null\<close> and \<^verbatim>\<open>undefined\<close> elements as empty strings. A parsed object
  prints as \<^verbatim>\<open>[object Object]\<close>, unless it has an own property
  \<^verbatim>\<open>toString\<close>, which hides the inherited method and is not callable: then the
  conversion throws.
\<close>

fun ToString :: "engine \<Rightarrow> jsval \<Rightarrow> failure + string"
  and joinElements :: "engine \<Rightarrow> jsval list \<Rightarrow> failure + string" where
  "ToString E JUndefined = Inr ''undefined''"
| "ToString E JNull = Inr ''null''"
| "ToString E (JBool b) = Inr (if b then ''true'' else ''false'')"
| "ToString E (JNum n) = Inr (numberToString E n)"
| "ToString E (JStr s) = Inr s"
| "ToString E (JArr xs) = joinElements E xs"
| "ToString E (JObj kvs) =
     (if map_of kvs ''toString'' = None then Inr ''[object Object]'' else Inl TypeError)"
| "joinElements E [] = Inr []"
| "joinElements E (x # xs) =
     (case (if x = JUndefined \<or> x = JNull then Inr [] else ToString E x) of
        Inl e \<Rightarrow> Inl e
      | Inr s \<Rightarrow>
          (if xs = [] then Inr s
           else (case joinElements E xs of Inl e \<Rightarrow> Inl e | Inr r \<Rightarrow> Inr (s @ '','' @ r))))"

fun ToNumber :: "engine \<Rightarrow> jsval \<Rightarrow> failure + jsnum" where
  "ToNumber E JUndefined = Inr NaN"
| "ToNumber E JNull = Inr (Fin 0)"
| "ToNumber E (JBool b) = Inr (Fin (if b then 1 else 0))"
| "ToNumber E (JNum n) = Inr n"
| "ToNumber E (JStr s) = Inr (StringToNumber E s)"
| "ToNumber E v = (case ToString E v of Inl e \<Rightarrow> Inl e | Inr s \<Rightarrow> Inr (StringToNumber E s))"

text \<open>\<^verbatim>\<open>i < v\<close> for a loop counter \<open>i\<close>.\<close>

definition counterLess :: "engine \<Rightarrow> nat \<Rightarrow> jsval \<Rightarrow> failure + bool" where
  "counterLess E i v =
     (case ToNumber E v of
        Inl e \<Rightarrow> Inl e
      | Inr n \<Rightarrow> Inr (case n of Fin q \<Rightarrow> of_nat i < q | PosInf \<Rightarrow> True | _ \<Rightarrow> False))"

text \<open>\<^verbatim>\<open>JSON.parse(v)\<close>: the argument is converted to a string first.\<close>

definition JSON_parse_value :: "engine \<Rightarrow> jsval \<Rightarrow> failure + jsval" where
  "JSON_parse_value E v =
     (case ToString E v of
        Inl e \<Rightarrow> Inl e
      | Inr s \<Rightarrow> (case JSON_parse E s of None \<Rightarrow> Inl SyntaxError | Some x \<Rightarrow> Inr x))"

section \<open>String operations of the runtime\<close>

definition startsWith :: "string \<Rightarrow> string \<Rightarrow> bool" where
  "startsWith p s = (take (length p) s = p)"

definition charCode :: "char \<Rightarrow> nat" where
  "charCode c = of_char c"

definition inRange :: "char \<Rightarrow> char \<Rightarrow> char \<Rightarrow> bool" where
  "inRange lo hi c = (charCode lo \<le> charCode c \<and> charCode c \<le> charCode hi)"

definition isDigit :: "char \<Rightarrow> bool" where
  "isDigit c = inRange (CHR ''0'') (CHR ''9'') c"

text \<open>The class \<^verbatim>\<open>\w\<close> of a regular expression without flags.\<close>

definition isWordChar :: "char \<Rightarrow> bool" where
  "isWordChar c =
     (inRange (CHR ''a'') (CHR ''z'') c \<or> inRange (CHR ''A'') (CHR ''Z'') c
      \<or> isDigit c \<or> c = CHR ''_'')"

text \<open>White space and line terminators, as \<^verbatim>\<open>trim\<close> removes them (up to 0xFF).\<close>

definition isWhiteSpace :: "char \<Rightarrow> bool" where
  "isWhiteSpace c =
     (c = CHR 0x09 \<or> c = CHR 0x0A \<or> c = CHR 0x0B \<or> c = CHR 0x0C \<or> c = CHR 0x0D
      \<or> c = CHR 0x20 \<or> c = CHR 0xA0)"

definition trim :: "string \<Rightarrow> string" where
  "trim s = rev (dropWhile isWhiteSpace (rev (dropWhile isWhiteSpace s)))"

text \<open>\<^verbatim>\<open>s.split(c)\<close> for a one-character separator.\<close>

fun splitOn :: "char \<Rightarrow> string \<Rightarrow> string list" where
  "splitOn c [] = [[]]"
| "splitOn c (x # xs) =
     (if x = c then [] # splitOn c xs
      else (case splitOn c xs of [] \<Rightarrow> [[x]] | seg # segs \<Rightarrow> (x # seg) # segs))"

definition toLowerCase :: "string \<Rightarrow> string" where
  "toLowerCase s =
     map (\<lambda>c. if inRange (CHR ''A'') (CHR ''Z'') c
                  \<or> (inRange (CHR 0xC0) (CHR 0xDE) c \<and> c \<noteq> CHR 0xD7)
               then char_of (charCode c + 32) else c) s"

text \<open>
  \<^verbatim>\<open>/^http:\/\/googleusercontent\.com\/card_content\/\d+/\<close>: whether it matches.
\<close>

definition cardContentMatch :: "string \<Rightarrow> bool" where
  "cardContentMatch s =
     (let p = ''http://googleusercontent.com/card_content/''
      in startsWith p s \<and> (case drop (length p) s of [] \<Rightarrow> False | d # r \<Rightarrow> isDigit d))"

text \<open>
  \<^verbatim>\<open>/http:\/\/googleusercontent\.com\/immersive_entry_chip\/(\d+)/g\<close>: the first
  of its matches (element 0 of the array that \<^verbatim>\<open>match\<close> returns), if any.
\<close>

fun chipFirstMatch :: "string \<Rightarrow> string option" where
  "chipFirstMatch [] = None"
| "chipFirstMatch (c # cs) =
     (let p = ''http://googleusercontent.com/immersive_entry_chip/''; r = drop (length p) (c # cs)
      in if startsWith p (c # cs) \<and> (case r of [] \<Rightarrow> False | d # u \<Rightarrow> isDigit d)
         then Some (p @ takeWhile isDigit r)
         else chipFirstMatch cs)"

text \<open>
  \<^verbatim>\<open>/```(\w+)?\n([\s\S]*?)```/g\<close>. \<open>untilFence\<close> is the lazy body: the text up to
  the next three backticks, and what follows them. \<open>fenceAt\<close> is a match that starts at
  the head of the string: the word run (empty when the group takes no part), the body and
  the rest. The greedy word run must be followed by the line feed: a shorter run is
  followed by a word character.
\<close>

fun untilFence :: "string \<Rightarrow> (string \<times> string) option" where
  "untilFence [] = None"
| "untilFence (c # cs) =
     (if startsWith ''```'' (c # cs) then Some ([], drop 2 cs)
      else map_option (\<lambda>(b, r). (c # b, r)) (untilFence cs))"

definition fenceAt :: "string \<Rightarrow> (string \<times> string \<times> string) option" where
  "fenceAt s =
     (if startsWith ''```'' s
      then (let a = drop 3 s; w = takeWhile isWordChar a
            in case dropWhile isWordChar a of
                 [] \<Rightarrow> None
               | n # r \<Rightarrow>
                   if n = CHR 0x0A then map_option (\<lambda>(b, rest). (w, b, rest)) (untilFence r)
                   else None)
      else None)"

lemma untilFence_shorter: "untilFence s = Some (b, r) \<Longrightarrow> length r < length s"
  by (induction s arbitrary: b r) (auto split: if_splits)

lemma fenceAt_shorter: "fenceAt s = Some (w, b, r) \<Longrightarrow> length r < length s"
proof -
  assume a: "fenceAt s = Some (w, b, r)"
  then obtain n t where d: "dropWhile isWordChar (drop 3 s) = n # t"
    and u: "untilFence t = Some (b, r)"
    by (auto simp: fenceAt_def Let_def split: if_splits list.splits)
  have "length t < length (dropWhile isWordChar (drop 3 s))"
    using d by simp
  also have "\<dots> \<le> length (drop 3 s)"
    by (rule length_dropWhile_le)
  finally have "length t < length s"
    by simp
  with untilFence_shorter [OF u] show ?thesis
    by simp
qed

text \<open>
  The matches that the loop over \<^verbatim>\<open>codeBlockRegex.exec(text)\<close> finds, from left
  to right: after a match the search goes on behind it, otherwise one character on.
\<close>

function fenceMatches :: "string \<Rightarrow> (string \<times> string) list" where
  "fenceMatches s =
     (case fenceAt s of
        Some (w, b, rest) \<Rightarrow> (w, b) # fenceMatches rest
      | None \<Rightarrow> (case s of [] \<Rightarrow> [] | c # cs \<Rightarrow> fenceMatches cs))"
  by pat_completeness auto
termination
  by (relation "measure length") (auto dest: fenceAt_shorter)

declare fenceMatches.simps [simp del]

section \<open>A reference \<^verbatim>\<open>JSON.parse\<close>\<close>

text \<open>
  The JSON grammar (ECMA-404), for evaluating the decoder on a concrete text: a lexer, and
  a parser that keeps the open arrays and objects on a stack. A number literal that is an
  integer of magnitude at most \<open>2 ^ 53\<close> is a double as it stands; any other literal is
  handed to the conversion of strings to numbers, which stays a parameter. An escape
  \<^verbatim>\<open>\uXXXX\<close> above 0xFF has no counterpart in \<^typ>\<open>string\<close>: the reference parser
  gives no answer there. A repeated key keeps its last value, as in the runtime.
\<close>

datatype token = TLBracket | TRBracket | TLBrace | TRBrace | TComma | TColon | TLit jsval

definition isJsonSpace :: "char \<Rightarrow> bool" where
  "isJsonSpace c = (c = CHR 0x20 \<or> c = CHR 0x09 \<or> c = CHR 0x0A \<or> c = CHR 0x0D)"

definition hexValue :: "char \<Rightarrow> nat option" where
  "hexValue c =
     (if isDigit c then Some (charCode c - 48)
      else if inRange (CHR ''a'') (CHR ''f'') c then Some (charCode c - 87)
      else if inRange (CHR ''A'') (CHR ''F'') c then Some (charCode c - 55)
      else None)"

definition hex4 :: "char \<Rightarrow> char \<Rightarrow> char \<Rightarrow> char \<Rightarrow> nat option" where
  "hex4 a b c d =
     (case (hexValue a, hexValue b, hexValue c, hexValue d) of
        (Some w, Some x, Some y, Some z) \<Rightarrow> Some (((w * 16 + x) * 16 + y) * 16 + z)
      | _ \<Rightarrow> None)"

definition escapeChar :: "char \<Rightarrow> char option" where
  "escapeChar e =
     (if e = CHR 0x22 \<or> e = CHR 0x5C \<or> e = CHR ''/'' then Some e
      else if e = CHR ''b'' then Some (CHR 0x08)
      else if e = CHR ''f'' then Some (CHR 0x0C)
      else if e = CHR ''n'' then Some (CHR 0x0A)
      else if e = CHR ''r'' then Some (CHR 0x0D)
      else if e = CHR ''t'' then Some (CHR 0x09)
      else None)"

text \<open>The characters of a string literal after its opening quote, and what follows it.\<close>

fun lexString :: "string \<Rightarrow> string \<Rightarrow> (string \<times> string) option" where
  "lexString acc [] = None"
| "lexString acc (c # cs) =
     (if c = CHR 0x22 then Some (acc, cs)
      else if c = CHR 0x5C then
        (case cs of
           [] \<Rightarrow> None
         | e # r \<Rightarrow>
             if e = CHR ''u'' then
               (case r of
                  h1 # h2 # h3 # h4 # r' \<Rightarrow>
                    (case hex4 h1 h2 h3 h4 of
                       None \<Rightarrow> None
                     | Some n \<Rightarrow> if n < 256 then lexString (acc @ [char_of n]) r' else None)
                | _ \<Rightarrow> None)
             else (case escapeChar e of None \<Rightarrow> None | Some x \<Rightarrow> lexString (acc @ [x]) r))
      else if charCode c < 32 then None
      else lexString (acc @ [c]) cs)"

definition isNumberChar :: "char \<Rightarrow> bool" where
  "isNumberChar c =
     (isDigit c \<or> c = CHR ''-'' \<or> c = CHR ''+'' \<or> c = CHR ''.'' \<or> c = CHR ''e'' \<or> c = CHR ''E'')"

definition dropSign :: "string \<Rightarrow> string" where
  "dropSign s = (case s of [] \<Rightarrow> [] | c # r \<Rightarrow> if c = CHR ''-'' then r else s)"

definition validExponent :: "string \<Rightarrow> bool" where
  "validExponent s =
     (case s of
        [] \<Rightarrow> True
      | c # r \<Rightarrow>
          (c = CHR ''e'' \<or> c = CHR ''E'')
          \<and> (let d = (case r of [] \<Rightarrow> [] | g # u \<Rightarrow> if g = CHR ''+'' \<or> g = CHR ''-'' then u else r)
             in d \<noteq> [] \<and> list_all isDigit d))"

definition validFraction :: "string \<Rightarrow> bool" where
  "validFraction s =
     (case s of
        [] \<Rightarrow> True
      | c # r \<Rightarrow>
          if c = CHR ''.'' then takeWhile isDigit r \<noteq> [] \<and> validExponent (dropWhile isDigit r)
          else validExponent s)"

definition validNumber :: "string \<Rightarrow> bool" where
  "validNumber s =
     (let i = takeWhile isDigit (dropSign s)
      in i \<noteq> [] \<and> (if hd i = CHR ''0'' then length i = 1 else True)
         \<and> validFraction (dropWhile isDigit (dropSign s)))"

definition digitsValue :: "string \<Rightarrow> nat" where
  "digitsValue ds = foldl (\<lambda>n c. 10 * n + (charCode c - 48)) 0 ds"

definition numberLiteral :: "(string \<Rightarrow> jsnum) \<Rightarrow> string \<Rightarrow> jsnum option" where
  "numberLiteral stn s =
     (if \<not> validNumber s then None
      else if list_all isDigit (dropSign s) \<and> digitsValue (dropSign s) \<le> 2 ^ 53 then
        (if dropSign s = s then Some (Fin (of_nat (digitsValue s)))
         else if digitsValue (dropSign s) = 0 then Some NegZero
         else Some (Fin (- of_nat (digitsValue (dropSign s)))))
      else Some (stn s))"

lemma lexString_shorter: "lexString acc s = Some (x, r) \<Longrightarrow> length r < length s"
proof (induction s arbitrary: acc x r rule: length_induct)
  case (1 s)
  show ?case
  proof (cases s)
    case Nil
    with "1.prems" show ?thesis by simp
  next
    case (Cons c cs)
    have ih: "\<And>t a y u. length t < length s \<Longrightarrow> lexString a t = Some (y, u) \<Longrightarrow> length u < length t"
      using "1.IH" by blast
    consider (quote) "c = CHR 0x22"
      | (esc) "c \<noteq> CHR 0x22" "c = CHR 0x5C"
      | (plain) "c \<noteq> CHR 0x22" "c \<noteq> CHR 0x5C"
      by blast
    then show ?thesis
    proof cases
      case quote
      with "1.prems" Cons show ?thesis by simp
    next
      case plain
      with "1.prems" Cons have "lexString (acc @ [c]) cs = Some (x, r)"
        by (simp split: if_splits)
      from ih [OF _ this] Cons show ?thesis by simp
    next
      case esc
      with "1.prems" Cons obtain e t where cs: "cs = e # t"
        by (cases cs) auto
      show ?thesis
      proof (cases "e = CHR ''u''")
        case False
        with esc "1.prems" Cons cs obtain y where "lexString (acc @ [y]) t = Some (x, r)"
          by (auto split: option.splits)
        from ih [OF _ this] Cons cs show ?thesis by simp
      next
        case True
        with esc "1.prems" Cons cs obtain h1 h2 h3 h4 t' n where t: "t = h1 # h2 # h3 # h4 # t'"
          and "lexString (acc @ [char_of (n::nat)]) t' = Some (x, r)"
          by (auto split: list.splits option.splits if_splits)
        from ih [OF _ this(2)] Cons cs t show ?thesis by simp
      qed
    qed
  qed
qed

function lex :: "(string \<Rightarrow> jsnum) \<Rightarrow> string \<Rightarrow> token list option" where
  "lex stn [] = Some []"
| "lex stn (c # cs) =
     (if isJsonSpace c then lex stn cs
      else if c = CHR ''['' then map_option ((#) TLBracket) (lex stn cs)
      else if c = CHR '']'' then map_option ((#) TRBracket) (lex stn cs)
      else if c = CHR ''{'' then map_option ((#) TLBrace) (lex stn cs)
      else if c = CHR ''}'' then map_option ((#) TRBrace) (lex stn cs)
      else if c = CHR '','' then map_option ((#) TComma) (lex stn cs)
      else if c = CHR '':'' then map_option ((#) TColon) (lex stn cs)
      else if c = CHR 0x22 then
        (case lexString [] cs of
           None \<Rightarrow> None
         | Some (s, r) \<Rightarrow> map_option ((#) (TLit (JStr s))) (lex stn r))
      else if isDigit c \<or> c = CHR ''-'' then
        (case numberLiteral stn (c # takeWhile isNumberChar cs) of
           None \<Rightarrow> None
         | Some n \<Rightarrow> map_option ((#) (TLit (JNum n))) (lex stn (dropWhile isNumberChar cs)))
      else if startsWith ''true'' (c # cs) then
        map_option ((#) (TLit (JBool True))) (lex stn (drop 3 cs))
      else if startsWith ''false'' (c # cs) then
        map_option ((#) (TLit (JBool False))) (lex stn (drop 4 cs))
      else if startsWith ''null'' (c # cs) then
        map_option ((#) (TLit JNull)) (lex stn (drop 3 cs))
      else None)"
  by pat_completeness auto
termination
  apply (relation "measure (\<lambda>(stn, s). length s)")
  apply simp_all
  subgoal for c cs x2 x y
    using lexString_shorter [of "[]" cs x y] by simp
  subgoal for stn c cs x2
    using length_dropWhile_le [of isNumberChar cs] by simp
  done

datatype frame =
    ArrF "jsval list"
  | ObjF "(string \<times> jsval) list"
  | KeyF "(string \<times> jsval) list" string

datatype mode =
    WantValue | WantValueOrClose | WantKeyOrClose | WantKey | WantColon string
  | AfterValue | Done jsval

fun reduce :: "frame list \<Rightarrow> jsval \<Rightarrow> (frame list \<times> mode) option" where
  "reduce [] v = Some ([], Done v)"
| "reduce (ArrF xs # st) v = Some (ArrF (xs @ [v]) # st, AfterValue)"
| "reduce (KeyF kvs k # st) v = Some (ObjF (AList.update k v kvs) # st, AfterValue)"
| "reduce (ObjF kvs # st) v = None"

fun startValue :: "frame list \<Rightarrow> token \<Rightarrow> (frame list \<times> mode) option" where
  "startValue st (TLit v) = reduce st v"
| "startValue st TLBracket = Some (ArrF [] # st, WantValueOrClose)"
| "startValue st TLBrace = Some (ObjF [] # st, WantKeyOrClose)"
| "startValue st t = None"

fun keyToken :: "frame list \<Rightarrow> token \<Rightarrow> (frame list \<times> mode) option" where
  "keyToken st (TLit (JStr k)) = Some (st, WantColon k)"
| "keyToken st t = None"

fun closeFrame :: "frame list \<Rightarrow> token \<Rightarrow> (frame list \<times> mode) option" where
  "closeFrame (ArrF xs # st) TRBracket = reduce st (JArr xs)"
| "closeFrame (ObjF kvs # st) TRBrace = reduce st (JObj kvs)"
| "closeFrame st t = None"

fun afterValue :: "frame list \<Rightarrow> token \<Rightarrow> (frame list \<times> mode) option" where
  "afterValue (ArrF xs # st) TComma = Some (ArrF xs # st, WantValue)"
| "afterValue (ObjF kvs # st) TComma = Some (ObjF kvs # st, WantKey)"
| "afterValue st t = closeFrame st t"

fun parseStep :: "frame list \<times> mode \<Rightarrow> token \<Rightarrow> (frame list \<times> mode) option" where
  "parseStep (st, WantValue) t = startValue st t"
| "parseStep (st, WantValueOrClose) t = (if t = TRBracket then closeFrame st t else startValue st t)"
| "parseStep (st, WantKeyOrClose) t = (if t = TRBrace then closeFrame st t else keyToken st t)"
| "parseStep (st, WantKey) t = keyToken st t"
| "parseStep (st, WantColon k) t =
     (case (st, t) of (ObjF kvs # st', TColon) \<Rightarrow> Some (KeyF kvs k # st', WantValue) | _ \<Rightarrow> None)"
| "parseStep (st, AfterValue) t = afterValue st t"
| "parseStep (st, Done v) t = None"

fun parseTokens :: "frame list \<times> mode \<Rightarrow> token list \<Rightarrow> jsval option" where
  "parseTokens (st, m) [] = (case m of Done v \<Rightarrow> Some v | _ \<Rightarrow> None)"
| "parseTokens s (t # ts) = (case parseStep s t of None \<Rightarrow> None | Some s' \<Rightarrow> parseTokens s' ts)"

definition jsonParse :: "(string \<Rightarrow> jsnum) \<Rightarrow> string \<Rightarrow> jsval option" where
  "jsonParse stn s = (case lex stn s of None \<Rightarrow> None | Some ts \<Rightarrow> parseTokens ([], WantValue) ts)"

section \<open>The client and the decoded response\<close>

text \<open>
  The state of a \<^verbatim>\<open>GeminiClient\<close>, field by field. \<open>refreshIntervalId\<close> is the
  handle of the refresh timer when one runs; \<open>verbose\<close> is assigned by
  \<^verbatim>\<open>init\<close> only and is absent (falsy) before. \<^verbatim>\<open>init\<close> and the
  refresh timer work through the network helpers of another module; of them the model
  has only the state they leave: \<open>running\<close> and the access token.
\<close>

record client =
  cookies :: "(string \<times> string) list"
  proxy :: "string option"
  running :: bool
  accessToken :: "string option"
  timeout :: nat
  autoRefresh :: bool
  refreshInterval :: nat
  refreshIntervalId :: "nat option"
  verbose :: bool

text \<open>
  What \<^verbatim>\<open>parseResponse\<close> builds. The fields of a candidate hold runtime values
  as they were read. Field names that several object literals of the source share are
  told apart by a prefix (\<open>imageUrl\<close>, \<open>fileUrl\<close>, \<open>sourceUrl\<close> are the three
  \<^verbatim>\<open>url\<close>), and \<open>text'\<close> is \<^verbatim>\<open>text\<close>. The result of a lookup in the table
  of MIME types is a string of the table or, for the two lower-case names that every
  object inherits, the inherited value.
\<close>

datatype mime = Mime string | ObjectConstructor | ObjectPrototype

record image =
  imageType :: string
  imageUrl :: jsval
  imageTitle :: jsval
  imageAlt :: jsval

record fileAttachment =
  fileName :: jsval
  mimeType :: mime
  fileUrl :: jsval
  fileTitle :: jsval
  content :: jsval

record codeBlock =
  language :: jsval
  code :: jsval

record executionResult =
  execOutput :: jsval
  execError :: jsval

record factualityRating =
  rating :: jsval
  confidence :: jsval

record source =
  sourceTitle :: jsval
  sourceUrl :: jsval
  snippet :: jsval

record candidate =
  rcid :: jsval
  text' :: jsval
  thoughts :: jsval
  webImages :: "image list"
  generatedImages :: "image list"
  images :: "image list"
  fileAttachments :: "fileAttachment list"
  codeBlocks :: "codeBlock list"
  codeExecutionResult :: "executionResult option"
  factuality :: "factualityRating option"
  sources :: "source list"

text \<open>
  The returned object: the fields of the first candidate at the top level, the metadata
  and the list of all candidates.
\<close>

record modelOutput = candidate +
  outputMetadata :: jsval
  candidates :: "candidate list"

section \<open>Sequencing of operations that may throw\<close>

definition andThen :: "failure + 'a \<Rightarrow> ('a \<Rightarrow> failure + 'b) \<Rightarrow> failure + 'b" where
  "andThen m f = (case m of Inl e \<Rightarrow> Inl e | Inr x \<Rightarrow> f x)"

text \<open>\<^verbatim>\<open>v[i][j]...\<close>, read from left to right.\<close>

fun path :: "jsval \<Rightarrow> nat list \<Rightarrow> failure + jsval" where
  "path v [] = Inr v"
| "path v (i # is) = andThen (getIdx v i) (\<lambda>x. path x is)"

text \<open>\<^verbatim>\<open>v && v[i]\<close> and \<^verbatim>\<open>a || b\<close>.\<close>

definition andGet :: "jsval \<Rightarrow> nat \<Rightarrow> failure + jsval" where
  "andGet v i = (if truthy v then getIdx v i else Inr v)"

definition orElse :: "jsval \<Rightarrow> jsval \<Rightarrow> jsval" where
  "orElse a b = (if truthy a then a else b)"

section \<open>\<^verbatim>\<open>detectMimeType\<close>\<close>

definition mimeTypes :: "(string \<times> string) list" where
  "mimeTypes =
     [(''js'', ''text/javascript''), (''ts'', ''text/typescript''), (''py'', ''text/x-python''),
      (''cpp'', ''text/x-c++''), (''c'', ''text/x-c''), (''h'', ''text/x-c''),
      (''hpp'', ''text/x-c++''), (''java'', ''text/x-java''), (''cs'', ''text/x-csharp''),
      (''php'', ''text/x-php''), (''rb'', ''text/x-ruby''), (''go'', ''text/x-go''),
      (''rs'', ''text/x-rust''), (''swift'', ''text/x-swift''), (''kt'', ''text/x-kotlin''),
      (''html'', ''text/html''), (''css'', ''text/css''), (''json'', ''application/json''),
      (''xml'', ''application/xml''), (''sh'', ''application/x-sh''),
      (''bash'', ''application/x-sh''), (''txt'', ''text/plain''), (''md'', ''text/markdown''),
      (''sql'', ''application/sql''), (''yaml'', ''text/yaml''), (''yml'', ''text/yaml'')]"

definition detectMimeType :: "client \<Rightarrow> jsval \<Rightarrow> failure + mime" where
  "detectMimeType this name =
     (if \<not> truthy name then Inr (Mime ''text/plain'')
      else andThen (stringReceiver name) (\<lambda>s.
        let ext = toLowerCase (last (splitOn (CHR ''.'') s))
        in Inr (case map_of mimeTypes ext of
                  Some m \<Rightarrow> Mime m
                | None \<Rightarrow>
                    if ext = ''constructor'' then ObjectConstructor
                    else if ext = ''__proto__'' then ObjectPrototype
                    else Mime ''text/plain'')))"

section \<open>\<^verbatim>\<open>parseResponse\<close>: one candidate\<close>

text \<open>
  The body of the loop over the candidates, block by block in the order of the source.
  A block inside \<^verbatim>\<open>try { } catch (e) { }\<close> yields what it had built when
  something threw; a block outside one passes the failure on.
\<close>

definition candidateText :: "jsval \<Rightarrow> failure + jsval" where
  "candidateText candidate =
     andThen (path candidate [1, 0]) (\<lambda>text.
       if \<not> truthy text then Inr text
       else andThen (stringReceiver text) (\<lambda>s.
         if cardContentMatch s
         then andThen (andThen (getIdx candidate 22) (\<lambda>c. andGet c 0)) (\<lambda>alt.
                Inr (orElse alt text))
         else Inr text))"

definition candidateThoughts :: "jsval \<Rightarrow> jsval" where
  "candidateThoughts candidate =
     (case andThen (getIdx candidate 37) (\<lambda>c. andGet c 0) of
        Inl e \<Rightarrow> JNull
      | Inr g \<Rightarrow>
          if truthy g then (case path candidate [37, 0, 0] of Inl e \<Rightarrow> JNull | Inr t \<Rightarrow> t)
          else JNull)"

fun fileLoop :: "client \<Rightarrow> jsval \<Rightarrow> jsval list \<Rightarrow> fileAttachment list \<Rightarrow> fileAttachment list" where
  "fileLoop this chip [] acc = acc"
| "fileLoop this chip (file # files) acc =
     (case file of
        JArr xs \<Rightarrow>
          if 5 \<le> length xs then
            (case detectMimeType this (xs ! 0) of
               Inl e \<Rightarrow> acc
             | Inr m \<Rightarrow>
                 fileLoop this chip files
                   (acc @ [\<lparr>fileName = orElse (xs ! 0) (JStr ''file.txt''), mimeType = m,
                            fileUrl = chip, fileTitle = orElse (xs ! 2) JNull,
                            content = orElse (xs ! 4) JNull\<rparr>]))
          else fileLoop this chip files acc
      | _ \<Rightarrow> fileLoop this chip files acc)"

definition candidateFileAttachments :: "client \<Rightarrow> jsval \<Rightarrow> jsval \<Rightarrow> fileAttachment list" where
  "candidateFileAttachments this candidate text =
     (case stringReceiver text of
        Inl e \<Rightarrow> []
      | Inr s \<Rightarrow>
          (case getIdx candidate 30 of
             Inr (JArr files) \<Rightarrow>
               fileLoop this (case chipFirstMatch s of Some m \<Rightarrow> JStr m | None \<Rightarrow> JNull) files []
           | _ \<Rightarrow> []))"

fun structuredLoop :: "jsval list \<Rightarrow> codeBlock list \<Rightarrow> codeBlock list" where
  "structuredLoop [] acc = acc"
| "structuredLoop (c # cs) acc =
     (case andGet c 1 of
        Inl e \<Rightarrow> acc
      | Inr c1 \<Rightarrow>
          if truthy c1 then
            (case getIdx c 0 of
               Inl e \<Rightarrow> acc
             | Inr c0 \<Rightarrow>
                 structuredLoop cs (acc @ [\<lparr>language = orElse c0 (JStr ''text''), code = c1\<rparr>]))
          else structuredLoop cs acc)"

definition fencedBlocks :: "string \<Rightarrow> codeBlock list" where
  "fencedBlocks s =
     map (\<lambda>(w, b). \<lparr>language = JStr (if w = [] then ''text'' else w), code = JStr (trim b)\<rparr>)
       (fenceMatches s)"

definition candidateCodeBlocks :: "engine \<Rightarrow> jsval \<Rightarrow> jsval \<Rightarrow> codeBlock list" where
  "candidateCodeBlocks E candidate text =
     (case getIdx candidate 14 of
        Inl e \<Rightarrow> []
      | Inr c14 \<Rightarrow>
          (let codeBlocks = (case c14 of JArr cs \<Rightarrow> structuredLoop cs [] | _ \<Rightarrow> [])
           in if codeBlocks = [] \<and> truthy text
              then (case ToString E text of
                      Inl e \<Rightarrow> codeBlocks
                    | Inr s \<Rightarrow> codeBlocks @ fencedBlocks s)
              else codeBlocks))"

definition candidateExecutionResult :: "jsval \<Rightarrow> executionResult option" where
  "candidateExecutionResult candidate =
     (case andThen (getIdx candidate 16) (\<lambda>c. andGet c 0) of
        Inl e \<Rightarrow> None
      | Inr out \<Rightarrow>
          if truthy out then
            (case path candidate [16, 1] of
               Inl e \<Rightarrow> None
             | Inr err \<Rightarrow> Some \<lparr>execOutput = out, execError = orElse err JNull\<rparr>)
          else None)"

definition candidateFactuality :: "jsval \<Rightarrow> failure + factualityRating option" where
  "candidateFactuality candidate =
     andThen (getIdx candidate 45) (\<lambda>f.
       if truthy f then
         andThen (getIdx f 0) (\<lambda>r. andThen (getIdx f 1) (\<lambda>c.
           Inr (Some \<lparr>rating = orElse r JNull, confidence = orElse c JNull\<rparr>)))
       else Inr None)"

fun sourceLoop :: "jsval list \<Rightarrow> source list \<Rightarrow> source list" where
  "sourceLoop [] acc = acc"
| "sourceLoop (s # ss) acc =
     (case andGet s 0 of
        Inl e \<Rightarrow> acc
      | Inr s0 \<Rightarrow>
          if truthy s0 then
            (case (getIdx s0 0, getIdx s0 1, getIdx s0 2) of
               (Inr t, Inr u, Inr n) \<Rightarrow>
                 sourceLoop ss
                   (acc @ [\<lparr>sourceTitle = orElse t (JStr []), sourceUrl = orElse u (JStr []),
                            snippet = orElse n (JStr [])\<rparr>])
             | _ \<Rightarrow> acc)
          else sourceLoop ss acc)"

text \<open>
  Factuality and sources share one \<^verbatim>\<open>try\<close> block: when the first part throws,
  the second is not reached.
\<close>

definition candidateFactualitySources :: "jsval \<Rightarrow> factualityRating option \<times> source list" where
  "candidateFactualitySources candidate =
     (case candidateFactuality candidate of
        Inl e \<Rightarrow> (None, [])
      | Inr f \<Rightarrow>
          (f, case getIdx candidate 11 of Inr (JArr ss) \<Rightarrow> sourceLoop ss [] | _ \<Rightarrow> []))"

fun webImageLoop :: "jsval list \<Rightarrow> image list \<Rightarrow> failure + image list" where
  "webImageLoop [] acc = Inr acc"
| "webImageLoop (webImage # rest) acc =
     andThen (path webImage [0, 0, 0]) (\<lambda>u.
     andThen (path webImage [7, 0]) (\<lambda>t.
     andThen (path webImage [0, 4]) (\<lambda>a.
       webImageLoop rest
         (acc @ [\<lparr>imageType = ''web_image'', imageUrl = u, imageTitle = t, imageAlt = a\<rparr>]))))"

definition candidateWebImages :: "jsval \<Rightarrow> failure + image list" where
  "candidateWebImages candidate =
     andThen (andThen (getIdx candidate 12) (\<lambda>c. andGet c 1)) (\<lambda>l.
       if truthy l then andThen (iterate l) (\<lambda>items. webImageLoop items []) else Inr [])"

definition generatedImage :: "engine \<Rightarrow> jsval \<Rightarrow> failure + image" where
  "generatedImage E genImage =
     andThen (path genImage [0, 3, 3]) (\<lambda>u.
     andThen (andThen (getIdx genImage 3) (\<lambda>g. andGet g 6)) (\<lambda>n.
     andThen (if truthy n then andThen (ToString E n) (\<lambda>s. Inr (''Generated Image '' @ s))
              else Inr ''Generated Image'') (\<lambda>t.
     andThen (andThen (andThen (getIdx genImage 3) (\<lambda>g. andGet g 5)) (\<lambda>g. andGet g 0)) (\<lambda>a.
       Inr \<lparr>imageType = ''generated_image'', imageUrl = u, imageTitle = JStr t,
            imageAlt = (if truthy a then a else JStr [])\<rparr>))))"

fun generatedImageLoop :: "engine \<Rightarrow> jsval list \<Rightarrow> image list \<Rightarrow> image list" where
  "generatedImageLoop E [] acc = acc"
| "generatedImageLoop E (genImage # rest) acc =
     (case generatedImage E genImage of
        Inl e \<Rightarrow> generatedImageLoop E rest acc
      | Inr img \<Rightarrow> generatedImageLoop E rest (acc @ [img]))"

definition candidateGeneratedImages :: "engine \<Rightarrow> jsval \<Rightarrow> failure + image list" where
  "candidateGeneratedImages E candidate =
     andThen (andThen (andThen (getIdx candidate 12) (\<lambda>c. andGet c 7)) (\<lambda>c. andGet c 0)) (\<lambda>l.
       if truthy l then andThen (iterate l) (\<lambda>items. Inr (generatedImageLoop E items []))
       else Inr [])"

definition parseCandidate :: "engine \<Rightarrow> client \<Rightarrow> jsval \<Rightarrow> failure + candidate" where
  "parseCandidate E this candidate =
     andThen (candidateText candidate) (\<lambda>text.
     andThen (candidateWebImages candidate) (\<lambda>web.
     andThen (candidateGeneratedImages E candidate) (\<lambda>generated.
     andThen (getIdx candidate 0) (\<lambda>c0.
       Inr \<lparr>rcid = c0, text' = text, thoughts = candidateThoughts candidate,
            webImages = web, generatedImages = generated, images = web @ generated,
            fileAttachments = candidateFileAttachments this candidate text,
            codeBlocks = candidateCodeBlocks E candidate text,
            codeExecutionResult = candidateExecutionResult candidate,
            factuality = fst (candidateFactualitySources candidate),
            sources = snd (candidateFactualitySources candidate)\<rparr>))))"

section \<open>\<^verbatim>\<open>parseResponse\<close>: the whole response\<close>

text \<open>
  The test \<^verbatim>\<open>i < v.length\<close> of a counting loop. On an array it compares with the
  number of elements; on a parsed object \<^verbatim>\<open>length\<close> is whatever the text gave
  that key, so the loops below may run without end and are partial functions: \<open>None\<close> is
  a run that does not return. The counter is a natural number: a double counts exactly up
  to \<open>2 ^ 53\<close>, and no array or string is that long.
\<close>

definition loopTest :: "engine \<Rightarrow> nat \<Rightarrow> jsval \<Rightarrow> failure + bool" where
  "loopTest E i v = andThen (getLength v) (counterLess E i)"

text \<open>
  One round of the search for the body: \<open>Some mainPart\<close> when the round reaches
  \<^verbatim>\<open>break\<close>, \<open>None\<close> when it throws (and is caught) or its test is falsy.
\<close>

definition tryMainPart :: "engine \<Rightarrow> jsval \<Rightarrow> nat \<Rightarrow> jsval option" where
  "tryMainPart E responseJson i =
     (case andThen (path responseJson [i, 2]) (JSON_parse_value E) of
        Inl e \<Rightarrow> None
      | Inr mainPart \<Rightarrow>
          (case getIdx mainPart 4 of
             Inl e \<Rightarrow> None
           | Inr b \<Rightarrow> if truthy b then Some mainPart else None))"

partial_function (option) findBody :: "engine \<Rightarrow> jsval \<Rightarrow> nat \<Rightarrow> (failure + jsval) option" where
  "findBody E responseJson i =
     (case loopTest E i responseJson of
        Inl e \<Rightarrow> Some (Inl e)
      | Inr go \<Rightarrow>
          if go then
            (case tryMainPart E responseJson i of
               Some mainPart \<Rightarrow> Some (Inr mainPart)
             | None \<Rightarrow> findBody E responseJson (i + 1))
          else Some (Inr JNull))"

partial_function (option) candidatesLoop ::
  "engine \<Rightarrow> client \<Rightarrow> jsval \<Rightarrow> nat \<Rightarrow> candidate list \<Rightarrow> (failure + candidate list) option" where
  "candidatesLoop E this body candidateIndex acc =
     (case andThen (getIdx body 4) (loopTest E candidateIndex) of
        Inl e \<Rightarrow> Some (Inl e)
      | Inr go \<Rightarrow>
          if go then
            (case andThen (path body [4, candidateIndex]) (parseCandidate E this) of
               Inl e \<Rightarrow> Some (Inl e)
             | Inr c \<Rightarrow> candidatesLoop E this body (candidateIndex + 1) (acc @ [c]))
          else Some (Inr acc))"

declare findBody.simps [code] candidatesLoop.simps [code]

text \<open>The \<^verbatim>\<open>try\<close> block of \<^verbatim>\<open>parseResponse\<close>.\<close>

definition parseResponseTry :: "engine \<Rightarrow> client \<Rightarrow> string \<Rightarrow> (failure + modelOutput) option" where
  "parseResponseTry E this responseText =
     (let lines = splitOn (CHR 0x0A) responseText
      in if length lines < 3 then Some (Inl (Error ''Invalid response format''))
         else
           (case JSON_parse_value E (JStr (lines ! 2)) of
              Inl e \<Rightarrow> Some (Inl e)
            | Inr responseJson \<Rightarrow>
                (case findBody E responseJson 0 of
                   None \<Rightarrow> None
                 | Some (Inl e) \<Rightarrow> Some (Inl e)
                 | Some (Inr body) \<Rightarrow>
                     if \<not> truthy body then Some (Inl (Error ''No valid response body found''))
                     else
                       (case candidatesLoop E this body 0 [] of
                          None \<Rightarrow> None
                        | Some (Inl e) \<Rightarrow> Some (Inl e)
                        | Some (Inr []) \<Rightarrow> Some (Inl (Error ''No candidates found in response''))
                        | Some (Inr (c # cs)) \<Rightarrow>
                            (case getIdx body 1 of
                               Inl e \<Rightarrow> Some (Inl e)
                             | Inr m \<Rightarrow>
                                 Some (Inr \<lparr>rcid = rcid c, text' = text' c, thoughts = thoughts c,
                                            webImages = webImages c,
                                            generatedImages = generatedImages c,
                                            images = images c,
                                            fileAttachments = fileAttachments c,
                                            codeBlocks = codeBlocks c,
                                            codeExecutionResult = codeExecutionResult c,
                                            factuality = factuality c, sources = sources c,
                                            outputMetadata = m, candidates = c # cs\<rparr>))))))"

text \<open>
  \<^verbatim>\<open>parseResponse\<close>: whatever the block throws is thrown again as an
  \<^verbatim>\<open>Error\<close> whose message is prefixed.
\<close>

definition parseResponse :: "engine \<Rightarrow> client \<Rightarrow> string \<Rightarrow> (failure + modelOutput) option" where
  "parseResponse E this responseText =
     (case parseResponseTry E this responseText of
        None \<Rightarrow> None
      | Some (Inl e) \<Rightarrow> Some (Inl (Error (''Failed to parse response: '' @ message E e)))
      | Some (Inr out) \<Rightarrow> Some (Inr out))"

text \<open>
  An engine for concrete texts: the reference parser, with the conversions between
  numbers and strings and the messages open.
\<close>

definition referenceEngine ::
  "(string \<Rightarrow> jsnum) \<Rightarrow> (jsnum \<Rightarrow> string) \<Rightarrow> (failure \<Rightarrow> string) \<Rightarrow> (string \<Rightarrow> parsedUrl option) \<Rightarrow> engine" where
  "referenceEngine stn nts msg url =
     \<lparr>JSON_parse = jsonParse stn, Number_toString = nts, StringToNumber = stn,
      engineMessage = msg, URL_new = url\<rparr>"

section \<open>Constants\<close>

record modelSpec =
  modelName :: string
  modelHeader :: "(string \<times> string) list"

definition Models_UNSPECIFIED :: modelSpec where
  "Models_UNSPECIFIED = \<lparr>modelName = ''unspecified'', modelHeader = []\<rparr>"

definition Models_GEMINI_2_5_FLASH :: modelSpec where
  "Models_GEMINI_2_5_FLASH =
     \<lparr>modelName = ''gemini-2.5-flash'',
      modelHeader = [(''x-goog-ext-525001261-jspb'',
        ''[1,null,null,null,'' @ [CHR 0x22] @ ''71c2d248d3b102ff'' @ [CHR 0x22] @ '',null,null,0,[4]]'')]\<rparr>"

definition Endpoints_GENERATE :: string where
  "Endpoints_GENERATE =
     ''https://gemini.google.com/_/BardChatUi/data/assistant.lamda.BardFrontendService/StreamGenerate''"

definition Headers_GEMINI :: "(string \<times> string) list" where
  "Headers_GEMINI =
     [(''Content-Type'', ''application/x-www-form-urlencoded;charset=utf-8''),
      (''Host'', ''gemini.google.com''),
      (''Origin'', ''https://gemini.google.com''),
      (''Referer'', ''https://gemini.google.com/''),
      (''User-Agent'', ''Mozilla/5.0 (Windows NT 10.0; Win64; x64) AppleWebKit/537.36 (KHTML, like Gecko) Chrome/120.0.0.0 Safari/537.36''),
      (''X-Same-Domain'', ''1'')]"

section \<open>The chat session\<close>

text \<open>
  A \<^verbatim>\<open>ChatSession\<close>: the continuation pointer \<open>metadata\<close>, the last output and the
  model. The client it refers to is passed to the operations along with it.

  \<^verbatim>\<open>generateContent\<close> assigns \<^verbatim>\<open>chat.metadata = output.metadata\<close>, and
  nothing else assigns either field: once a last output is there, its metadata and the
  pointer are one and the same array, and a write to a slot of the pointer shows in both.
  \<open>storeSlot\<close> is that write, \<^verbatim>\<open>this.metadata[i] = x\<close>.
\<close>

record chatSession =
  metadata :: jsval
  lastOutput :: "modelOutput option"
  model :: modelSpec

definition storeSlot :: "chatSession \<Rightarrow> nat \<Rightarrow> jsval \<Rightarrow> failure + chatSession" where
  "storeSlot this i x =
     andThen (setIdx (metadata this) i x) (\<lambda>m.
       Inr (this\<lparr>metadata := m,
                 lastOutput := map_option (\<lambda>out. out\<lparr>outputMetadata := m\<rparr>) (lastOutput this)\<rparr>))"

text \<open>The accessors \<^verbatim>\<open>cid\<close>, \<^verbatim>\<open>rid\<close> and \<^verbatim>\<open>rcid\<close>.\<close>

definition get_cid :: "chatSession \<Rightarrow> failure + jsval" where
  "get_cid this = getIdx (metadata this) 0"

definition get_rid :: "chatSession \<Rightarrow> failure + jsval" where
  "get_rid this = getIdx (metadata this) 1"

definition get_rcid :: "chatSession \<Rightarrow> failure + jsval" where
  "get_rcid this = getIdx (metadata this) 2"

definition set_cid :: "chatSession \<Rightarrow> jsval \<Rightarrow> failure + chatSession" where
  "set_cid this v = storeSlot this 0 v"

definition set_rid :: "chatSession \<Rightarrow> jsval \<Rightarrow> failure + chatSession" where
  "set_rid this v = storeSlot this 1 v"

definition set_rcid :: "chatSession \<Rightarrow> jsval \<Rightarrow> failure + chatSession" where
  "set_rcid this v = storeSlot this 2 v"

text \<open>
  \<^verbatim>\<open>setMetadata\<close>. The result is the session after the call, with the failure
  when the call throws; \<open>exceeds E v k\<close> is \<^verbatim>\<open>v > k\<close>.
\<close>

definition exceeds :: "engine \<Rightarrow> jsval \<Rightarrow> nat \<Rightarrow> failure + bool" where
  "exceeds E v k =
     andThen (ToNumber E v) (\<lambda>n.
       Inr (case n of Fin q \<Rightarrow> of_nat k < q | PosInf \<Rightarrow> True | _ \<Rightarrow> False))"

partial_function (option) setMetadataLoop ::
  "engine \<Rightarrow> chatSession \<Rightarrow> jsval \<Rightarrow> nat \<Rightarrow> (failure option \<times> chatSession) option" where
  "setMetadataLoop E this md i =
     (case loopTest E i md of
        Inl e \<Rightarrow> Some (Some e, this)
      | Inr go \<Rightarrow>
          if go then
            (case andThen (getIdx md i) (storeSlot this i) of
               Inl e \<Rightarrow> Some (Some e, this)
             | Inr this' \<Rightarrow> setMetadataLoop E this' md (i + 1))
          else Some (None, this))"

declare setMetadataLoop.simps [code]

definition setMetadata :: "engine \<Rightarrow> chatSession \<Rightarrow> jsval \<Rightarrow> (failure option \<times> chatSession) option" where
  "setMetadata E this md =
     (case andThen (getLength md) (\<lambda>l. exceeds E l 3) of
        Inl e \<Rightarrow> Some (Some e, this)
      | Inr over \<Rightarrow>
          if over then Some (Some (Error ''Metadata cannot exceed 3 elements''), this)
          else setMetadataLoop E this md 0)"

text \<open>The constructor; an absent option is \<^verbatim>\<open>undefined\<close>.\<close>

record chatOptions =
  optModel :: "modelSpec option"
  optMetadata :: jsval
  optCid :: jsval
  optRid :: jsval
  optRcid :: jsval

definition storeIfTruthy :: "nat \<Rightarrow> jsval \<Rightarrow> chatSession \<Rightarrow> failure + chatSession" where
  "storeIfTruthy i v this = (if truthy v then storeSlot this i v else Inr this)"

definition newChatSession :: "engine \<Rightarrow> chatOptions \<Rightarrow> (failure + chatSession) option" where
  "newChatSession E options =
     (let this = \<lparr>metadata = JArr [JNull, JNull, JNull], lastOutput = None,
                  model = (case optModel options of Some m \<Rightarrow> m | None \<Rightarrow> Models_UNSPECIFIED)\<rparr>
      in case (if truthy (optMetadata options) then setMetadata E this (optMetadata options)
               else Some (None, this)) of
           None \<Rightarrow> None
         | Some (Some e, this') \<Rightarrow> Some (Inl e)
         | Some (None, this') \<Rightarrow>
             Some (andThen (storeIfTruthy 0 (optCid options) this') (\<lambda>a.
                   andThen (storeIfTruthy 1 (optRid options) a) (\<lambda>b.
                     storeIfTruthy 2 (optRcid options) b))))"

text \<open>
  \<^verbatim>\<open>chooseCandidate\<close>. \<open>elementAt\<close> is a read of an array at a number:
  \<^verbatim>\<open>undefined\<close> (\<open>None\<close>) outside the array, and a read of a field of
  \<^verbatim>\<open>undefined\<close> throws. The object that is returned spreads the last output,
  whose metadata is the array of the pointer, after the write to its slot 2. The index
  is an integer; \<open>showInt\<close> is its decimal form, which is what the message prints for
  an index below \<open>10 ^ 21\<close>.
\<close>

definition elementAt :: "'a list \<Rightarrow> int \<Rightarrow> 'a option" where
  "elementAt xs i = (if 0 \<le> i \<and> i < int (length xs) then Some (xs ! nat i) else None)"

definition showInt :: "int \<Rightarrow> string" where
  "showInt i = (if i < 0 then ''-'' @ decimal (nat (- i)) else decimal (nat i))"

definition chooseCandidate :: "chatSession \<Rightarrow> int \<Rightarrow> (failure + modelOutput) \<times> chatSession" where
  "chooseCandidate this index =
     (case lastOutput this of
        None \<Rightarrow> (Inl (Error ''No previous output in this chat session''), this)
      | Some out \<Rightarrow>
          if int (length (candidates out)) \<le> index
          then (Inl (Error (''Index '' @ showInt index @ '' exceeds number of candidates'')), this)
          else
            (case elementAt (candidates out) index of
               None \<Rightarrow> (Inl TypeError, this)
             | Some chosen \<Rightarrow>
                 (case storeSlot this 2 (rcid chosen) of
                    Inl e \<Rightarrow> (Inl e, this)
                  | Inr this' \<Rightarrow>
                      (Inr (out\<lparr>outputMetadata := metadata this',
                               text' := text' chosen, thoughts := thoughts chosen,
                               images := images chosen, webImages := webImages chosen,
                               generatedImages := generatedImages chosen,
                               fileAttachments := fileAttachments chosen,
                               codeBlocks := codeBlocks chosen,
                               codeExecutionResult := codeExecutionResult chosen,
                               factuality := factuality chosen,
                               sources := sources chosen, rcid := rcid chosen\<rparr>),
                       this'))))"

section \<open>\<^verbatim>\<open>generateContent\<close>\<close>

text \<open>
  The request handed to the HTTP library, as the values it is serialised from:
  \<open>reqAt\<close> and \<open>reqFReq\<close> are the two form fields, the second one the array
  \<^verbatim>\<open>[[prompt], null, metadata]\<close> before \<^verbatim>\<open>JSON.stringify\<close>. The library is
  a parameter \<open>axios\<close>: it answers a request with a response or rejects it.
\<close>

record proxyConfig =
  proxyProtocol :: string
  proxyHost :: string
  proxyPort :: nat
  proxyAuth :: "(string \<times> string) option"

record requestConfig =
  reqMethod :: string
  reqUrl :: string
  reqHeaders :: "(string \<times> string) list"
  reqAt :: "string option"
  reqFReq :: jsval
  reqTimeout :: nat
  reqMaxRedirects :: nat
  reqProxy :: "proxyConfig option"

record response =
  status :: nat
  responseData :: string

definition parseProxyUrl :: "engine \<Rightarrow> string \<Rightarrow> failure + proxyConfig" where
  "parseProxyUrl E proxyUrl =
     (case URL_new E proxyUrl of
        None \<Rightarrow> Inl TypeError
      | Some url \<Rightarrow>
          Inr \<lparr>proxyProtocol = remove1 (CHR '':'') (protocol url),
               proxyHost = hostname url,
               proxyPort = (case port url of
                              Some p \<Rightarrow> if p \<noteq> 0 then p
                                        else if protocol url = ''https:'' then 443 else 80
                            | None \<Rightarrow> if protocol url = ''https:'' then 443 else 80),
               proxyAuth = (if username url \<noteq> [] \<and> password url \<noteq> []
                            then Some (username url, password url) else None)\<rparr>)"

definition joinWith :: "string \<Rightarrow> string list \<Rightarrow> string" where
  "joinWith sep xs = (case xs of [] \<Rightarrow> [] | y # ys \<Rightarrow> foldl (\<lambda>a b. a @ sep @ b) y ys)"

text \<open>An object spread: the later properties overwrite the earlier ones.\<close>

definition spread :: "(string \<times> string) list \<Rightarrow> (string \<times> string) list \<Rightarrow> (string \<times> string) list" where
  "spread a b = foldl (\<lambda>acc (k, v). AList.update k v acc) a b"

definition buildConfig ::
  "engine \<Rightarrow> client \<Rightarrow> string \<Rightarrow> modelSpec \<Rightarrow> chatSession option \<Rightarrow> failure + requestConfig" where
  "buildConfig E this prompt model' chat =
     (let config =
        \<lparr>reqMethod = ''post'', reqUrl = Endpoints_GENERATE,
         reqHeaders =
           spread (spread Headers_GEMINI (modelHeader model'))
             [(''Cookie'', joinWith ''; '' (map (\<lambda>(k, v). k @ ''='' @ v) (cookies this)))],
         reqAt = accessToken this,
         reqFReq = JArr [JArr [JStr prompt], JNull,
                         (case chat of Some c \<Rightarrow> metadata c | None \<Rightarrow> JNull)],
         reqTimeout = timeout this, reqMaxRedirects = 5, reqProxy = None\<rparr>
      in case proxy this of
           None \<Rightarrow> Inr config
         | Some p \<Rightarrow>
             if p = [] then Inr config
             else andThen (parseProxyUrl E p) (\<lambda>pc. Inr (config\<lparr>reqProxy := Some pc\<rparr>)))"

definition close :: "client \<Rightarrow> client" where
  "close this = this\<lparr>running := False, refreshIntervalId := None\<rparr>"

text \<open>The constructor: a client that has not been initialised is not running.\<close>

definition GeminiClient :: "string option \<Rightarrow> string option \<Rightarrow> string option \<Rightarrow> client" where
  "GeminiClient secure1PSID secure1PSIDTS proxy' =
     \<lparr>cookies =
        (case secure1PSID of
           None \<Rightarrow> []
         | Some a \<Rightarrow>
             if a = [] then []
             else (''__Secure-1PSID'', a) #
                  (case secure1PSIDTS of
                     None \<Rightarrow> []
                   | Some b \<Rightarrow> if b = [] then [] else [(''__Secure-1PSIDTS'', b)])),
      proxy = proxy', running = False, accessToken = None, timeout = 300000,
      autoRefresh = True, refreshInterval = 54000, refreshIntervalId = None,
      verbose = False\<rparr>"

fun includes' :: "string \<Rightarrow> string \<Rightarrow> bool" where
  "includes' [] sub = (sub = [])"
| "includes' (c # cs) sub = (startsWith sub (c # cs) \<or> includes' cs sub)"

fun errorCode :: "failure \<Rightarrow> string option" where
  "errorCode (AxiosError c m s) = c"
| "errorCode e = None"

fun errorResponseStatus :: "failure \<Rightarrow> nat option" where
  "errorResponseStatus (AxiosError c m s) = s"
| "errorResponseStatus e = None"

text \<open>The \<^verbatim>\<open>catch\<close> block: what is thrown on, and the client after it.\<close>

definition catchBlock :: "engine \<Rightarrow> client \<Rightarrow> failure \<Rightarrow> failure \<times> client" where
  "catchBlock E this error =
     (if errorCode error = Some ''ECONNABORTED'' \<or> includes' (message E error) ''timeout''
      then (Error ''Request timed out. Consider increasing timeout value.'', this)
      else if errorResponseStatus error = Some 401 \<or> errorResponseStatus error = Some 403
      then (Error ''Authentication failed. Cookies may have expired. Please reinitialize.'',
            close this)
      else (error, this))"

text \<open>
  The update of the session after a decoded response: the three assignments
  \<^verbatim>\<open>chat.lastOutput = output\<close>, \<^verbatim>\<open>chat.metadata = output.metadata\<close>,
  \<^verbatim>\<open>chat.rcid = output.rcid\<close>. The last one writes into the array that the
  output holds, so the output that is returned shows the write too.
\<close>

definition updateChat :: "chatSession \<Rightarrow> modelOutput \<Rightarrow> (failure + modelOutput) \<times> chatSession" where
  "updateChat chat out =
     (let chat1 = chat\<lparr>lastOutput := Some out, metadata := outputMetadata out\<rparr>
      in case storeSlot chat1 2 (rcid out) of
           Inl e \<Rightarrow> (Inl e, chat1)
         | Inr chat2 \<Rightarrow> (Inr (out\<lparr>outputMetadata := metadata chat2\<rparr>), chat2))"

text \<open>
  The outcome of a call: what it returns or throws, the client and the session after it,
  and the requests that were handed to the HTTP library. \<open>None\<close> is a call that does
  not return.
\<close>

type_synonym outcome = "(failure + modelOutput) \<times> client \<times> chatSession option \<times> requestConfig list"

definition thrown :: "engine \<Rightarrow> client \<Rightarrow> chatSession option \<Rightarrow> requestConfig list \<Rightarrow> failure \<Rightarrow> outcome" where
  "thrown E this chat sent error =
     (Inl (fst (catchBlock E this error)), snd (catchBlock E this error), chat, sent)"

definition generateContent ::
  "engine \<Rightarrow> (requestConfig \<Rightarrow> failure + response) \<Rightarrow> client \<Rightarrow> string \<Rightarrow> modelSpec option
   \<Rightarrow> chatSession option \<Rightarrow> outcome option" where
  "generateContent E axios this prompt optModel' chat =
     (if prompt = [] \<or> trim prompt = []
      then Some (Inl (Error ''Prompt cannot be empty''), this, chat, [])
      else if \<not> running this
      then Some (Inl (Error ''Client not initialized. Call init() first.''), this, chat, [])
      else
        (case buildConfig E this prompt
                (case optModel' of Some m \<Rightarrow> m | None \<Rightarrow> Models_UNSPECIFIED) chat of
           Inl e \<Rightarrow> Some (thrown E this chat [] e)
         | Inr config \<Rightarrow>
             (case axios config of
                Inl e \<Rightarrow> Some (thrown E this chat [config] e)
              | Inr response \<Rightarrow>
                  if status response \<noteq> 200
                  then Some (thrown E this chat [config]
                         (Error (''Request failed with status '' @ decimal (status response))))
                  else
                    (case parseResponse E this (responseData response) of
                       None \<Rightarrow> None
                     | Some (Inl e) \<Rightarrow> Some (thrown E this chat [config] e)
                     | Some (Inr out) \<Rightarrow>
                         (case chat of
                            None \<Rightarrow> Some (Inr out, this, None, [config])
                          | Some c \<Rightarrow>
                              (case updateChat c out of
                                 (Inl e, c') \<Rightarrow> Some (thrown E this (Some c') [config] e)
                               | (Inr out', c') \<Rightarrow> Some (Inr out', this, Some c', [config])))))))"

definition sendMessage ::
  "engine \<Rightarrow> (requestConfig \<Rightarrow> failure + response) \<Rightarrow> client \<Rightarrow> chatSession \<Rightarrow> string \<Rightarrow> outcome option" where
  "sendMessage E axios geminiClient this prompt =
     generateContent E axios geminiClient prompt (Some (model this)) (Some this)"

section \<open>Concrete inputs\<close>

text \<open>
  An instance of the reference engine, a client, two answers of the HTTP library and the
  texts of the scenarios, for statements about one concrete run. The conversions of the
  instance are placeholders: the texts below hold no number but small integers and no
  run below turns a number into a string, so they are never called; its one message
  stands for whatever the runtime writes into an error it throws.
\<close>

definition sampleEngine :: engine where
  "sampleEngine =
     referenceEngine (\<lambda>s. NaN) (\<lambda>n. ''NaN'') (\<lambda>e. ''engine error'') (\<lambda>s. None)"

definition offline :: "requestConfig \<Rightarrow> failure + response" where
  "offline config = Inl (AxiosError (Some ''ECONNREFUSED'') ''connect ECONNREFUSED'' None)"

definition replyWith :: "string \<Rightarrow> requestConfig \<Rightarrow> failure + response" where
  "replyWith body config = Inr \<lparr>status = 200, responseData = body\<rparr>"

definition readyClient :: client where
  "readyClient = (GeminiClient (Some ''psid'') None None)\<lparr>running := True, accessToken := Some ''token''\<rparr>"

text \<open>
  Scenario A as the specification writes it: three lines, the third one an array with one
  element whose index-2 string is \<^verbatim>\<open>[null,null,null,[[[0,["hi"]]]]]\<close>. In
  \<open>scenarioA_index4\<close> that string is \<^verbatim>\<open>[null,null,null,null,[[0,["hi"]]]]\<close>:
  the list with the one candidate sits at index 4.
\<close>

definition scenarioA :: string where
  "scenarioA =
     ''...'' @ [CHR 0x0A] @ ''...'' @ [CHR 0x0A] @ ''[[null,null,'' @ [CHR 0x22]
     @ ''[null,null,null,[[[0,['' @ [CHR 0x5C, CHR 0x22] @ ''hi'' @ [CHR 0x5C, CHR 0x22]
     @ '']]]]]'' @ [CHR 0x22] @ '']]''"

definition scenarioA_index4 :: string where
  "scenarioA_index4 =
     ''...'' @ [CHR 0x0A] @ ''...'' @ [CHR 0x0A] @ ''[[null,null,'' @ [CHR 0x22]
     @ ''[null,null,null,null,[[0,['' @ [CHR 0x5C, CHR 0x22] @ ''hi'' @ [CHR 0x5C, CHR 0x22]
     @ '']]]]'' @ [CHR 0x22] @ '']]''"

text \<open>
  The selection of the body in the words of the specification: an element of the outer
  array gives a body when its index-2 string decodes to a value whose index-4 field is
  truthy, and the body of the response is the first one that the elements give, in order.
\<close>

definition spec_decodedBody :: "engine \<Rightarrow> jsval \<Rightarrow> jsval option" where
  "spec_decodedBody E element =
     (case getIdx element 2 of
        Inl e \<Rightarrow> None
      | Inr s \<Rightarrow>
          (case JSON_parse_value E s of
             Inl e \<Rightarrow> None
           | Inr v \<Rightarrow>
               (case getIdx v 4 of
                  Inl e \<Rightarrow> None
                | Inr b \<Rightarrow> if truthy b then Some v else None)))"

fun spec_firstBody :: "engine \<Rightarrow> jsval list \<Rightarrow> jsval option" where
  "spec_firstBody E [] = None"
| "spec_firstBody E (x # xs) =
     (case spec_decodedBody E x of Some v \<Rightarrow> Some v | None \<Rightarrow> spec_firstBody E xs)"

text \<open>
  A response of two elements: the first decodes to \<^verbatim>\<open>[1]\<close>, the second to a
  body whose list of candidates is empty.
\<close>

definition scenarioEmpty :: string where
  "scenarioEmpty =
     [CHR 0x0A, CHR 0x0A] @ ''[[null,null,'' @ [CHR 0x22] @ ''[1]'' @ [CHR 0x22]
     @ ''],[null,null,'' @ [CHR 0x22] @ ''[0,0,0,0,[]]'' @ [CHR 0x22] @ '']]''"

text \<open>
  The loop over the candidates when it runs over an array, as a recursion on the list,
  and the generated image that an item gives unless reading it throws.
\<close>

fun decodeCandidates :: "engine \<Rightarrow> client \<Rightarrow> jsval list \<Rightarrow> candidate list \<Rightarrow> failure + candidate list" where
  "decodeCandidates E this [] acc = Inr acc"
| "decodeCandidates E this (c # cs) acc =
     (case parseCandidate E this c of
        Inl e \<Rightarrow> Inl e
      | Inr x \<Rightarrow> decodeCandidates E this cs (acc @ [x]))"

definition keptImage :: "engine \<Rightarrow> jsval \<Rightarrow> image option" where
  "keptImage E genImage = (case generatedImage E genImage of Inl e \<Rightarrow> None | Inr img \<Rightarrow> Some img)"

text \<open>
  A response with one candidate whose list of web images holds the single entry
  \<^verbatim>\<open>[]\<close>, and candidates with no index 12, with a web-image list that is
  absent, with that malformed entry, and with a list of generated images whose first
  item is \<^verbatim>\<open>null\<close>.
\<close>

definition scenarioWebImage :: string where
  "scenarioWebImage =
     [CHR 0x0A, CHR 0x0A] @ ''[[null,null,'' @ [CHR 0x22]
     @ ''[null,null,null,null,[[0,['' @ [CHR 0x5C, CHR 0x22] @ ''hi'' @ [CHR 0x5C, CHR 0x22]
     @ ''],null,null,null,null,null,null,null,null,null,null,[null,[[]]]]]]''
     @ [CHR 0x22] @ '']]''"

definition candidateNoImages :: jsval where
  "candidateNoImages = JArr [JNum (Fin 0), JArr [JStr ''hi'']]"

definition candidateBadWebImage :: jsval where
  "candidateBadWebImage =
     JArr [JNum (Fin 0), JArr [JStr ''hi''], JNull, JNull, JNull, JNull, JNull, JNull, JNull,
           JNull, JNull, JNull, JArr [JNull, JArr [JArr []]]]"

definition candidateEmptyList :: jsval where
  "candidateEmptyList =
     JArr [JNum (Fin 0), JArr [JStr ''hi''], JNull, JNull, JNull, JNull, JNull, JNull, JNull,
           JNull, JNull, JNull, JArr [JNull]]"

definition generatedItems :: "jsval list" where
  "generatedItems =
     [JNull, JArr [JArr [JNull, JNull, JNull, JArr [JNull, JNull, JNull, JStr ''u'']]]]"

definition candidateGenerated :: jsval where
  "candidateGenerated =
     JArr [JNum (Fin 0), JArr [JStr ''hi''], JNull, JNull, JNull, JNull, JNull, JNull, JNull,
           JNull, JNull, JNull,
           JArr [JNull, JNull, JNull, JNull, JNull, JNull, JNull, JArr [JArr generatedItems]]]"








text \<open>A chat session as the constructor leaves it when it is given no option.\<close>

definition freshChat :: chatSession where
  "freshChat = \<lparr>metadata = JArr [JNull, JNull, JNull], lastOutput = None, model = Models_UNSPECIFIED\<rparr>"

text \<open>
  A session after a turn that returned two candidates, a response whose body carries a
  metadata array of four elements, and two readings of the outcome of a call: whether it
  returned, and the pointer of the session after it.
\<close>

definition plainCandidate :: "jsval \<Rightarrow> string \<Rightarrow> candidate" where
  "plainCandidate ident t =
     \<lparr>rcid = ident, text' = JStr t, thoughts = JNull, webImages = [], generatedImages = [],
      images = [], fileAttachments = [], codeBlocks = [], codeExecutionResult = None,
      factuality = None, sources = []\<rparr>"

definition twoCandidates :: modelOutput where
  "twoCandidates =
     \<lparr>rcid = JStr ''rc0'', text' = JStr ''first'', thoughts = JNull, webImages = [],
      generatedImages = [], images = [], fileAttachments = [], codeBlocks = [],
      codeExecutionResult = None, factuality = None, sources = [],
      outputMetadata = JArr [JStr ''c'', JStr ''r'', JStr ''rc0''],
      candidates = [plainCandidate (JStr ''rc0'') ''first'', plainCandidate (JStr ''rc1'') ''second'']\<rparr>"

definition chatAfterTurn :: chatSession where
  "chatAfterTurn =
     \<lparr>metadata = JArr [JStr ''c'', JStr ''r'', JStr ''rc0''], lastOutput = Some twoCandidates,
      model = Models_UNSPECIFIED\<rparr>"

definition scenarioFourSlots :: string where
  "scenarioFourSlots =
     [CHR 0x0A, CHR 0x0A] @ ''[[null,null,'' @ [CHR 0x22] @ ''[null,[''
     @ [CHR 0x5C, CHR 0x22] @ ''c'' @ [CHR 0x5C, CHR 0x22] @ '',''
     @ [CHR 0x5C, CHR 0x22] @ ''r'' @ [CHR 0x5C, CHR 0x22] @ '',''
     @ [CHR 0x5C, CHR 0x22] @ ''rc'' @ [CHR 0x5C, CHR 0x22] @ '',''
     @ [CHR 0x5C, CHR 0x22] @ ''x'' @ [CHR 0x5C, CHR 0x22] @ ''],null,null,[[''
     @ [CHR 0x5C, CHR 0x22] @ ''rc0'' @ [CHR 0x5C, CHR 0x22] @ '',[''
     @ [CHR 0x5C, CHR 0x22] @ ''hi'' @ [CHR 0x5C, CHR 0x22] @ '']]]]'' @ [CHR 0x22] @ '']]''"

definition returned :: "outcome option \<Rightarrow> bool" where
  "returned r = (case r of Some (Inr out, rest) \<Rightarrow> True | _ \<Rightarrow> False)"

definition pointerAfter :: "outcome option \<Rightarrow> jsval option" where
  "pointerAfter r = (case r of Some (res, this, Some chat, sent) \<Rightarrow> Some (metadata chat) | _ \<Rightarrow> None)"

section \<open>The guards of \<^verbatim>\<open>generateContent\<close>\<close>

text \<open>
  C8. A prompt that is empty, or empty after trimming, makes \<^verbatim>\<open>generateContent\<close>
  throw \<^verbatim>\<open>Prompt cannot be empty\<close> at once: no request is handed to the HTTP
  library, and the client and the chat session are as before, whatever the state of the
  client.
\<close>

theorem generateContent_empty_prompt:
  "trim prompt = [] \<Longrightarrow>
   generateContent E axios this prompt m chat
     = Some (Inl (Error ''Prompt cannot be empty''), this, chat, [])"
  by (simp add: generateContent_def)

theorem generateContent_empty_prompt_witness:
  "trim (''  '' @ [CHR 0x09, CHR 0x0A]) = []
   \<and> generateContent sampleEngine offline readyClient (''  '' @ [CHR 0x09, CHR 0x0A]) None None
       = Some (Inl (Error ''Prompt cannot be empty''), readyClient, None, [])"
proof -
  have h: "trim (''  '' @ [CHR 0x09, CHR 0x0A]) = []"
    by (simp add: trim_def isWhiteSpace_def)
  show ?thesis
    using h generateContent_empty_prompt [OF h, of sampleEngine offline readyClient None None]
    by simp
qed

text \<open>
  C9, amended. A client is not running after its construction and after
  \<^verbatim>\<open>close\<close>. On a client that is not running, \<^verbatim>\<open>generateContent\<close>
  with a prompt that is not empty after trimming throws
  \<^verbatim>\<open>Client not initialized. Call init() first.\<close>: no request is handed to the
  HTTP library, and the client and the chat session are as before.
  \<^verbatim>\<open>sendMessage\<close> is the same call.
\<close>

theorem generateContent_not_running:
  "\<not> running (GeminiClient a b p) \<and> \<not> running (close c)
   \<and> (trim prompt \<noteq> [] \<and> \<not> running this \<longrightarrow>
        generateContent E axios this prompt m chat
          = Some (Inl (Error ''Client not initialized. Call init() first.''), this, chat, [])
        \<and> sendMessage E axios this session prompt
          = Some (Inl (Error ''Client not initialized. Call init() first.''), this,
                  Some session, []))"
  by (auto simp: generateContent_def sendMessage_def GeminiClient_def close_def trim_def)

theorem generateContent_not_running_witness:
  "trim ''hi'' \<noteq> [] \<and> \<not> running (close readyClient)
   \<and> generateContent sampleEngine offline (close readyClient) ''hi'' None None
       = Some (Inl (Error ''Client not initialized. Call init() first.''), close readyClient,
               None, [])"
proof -
  have h: "trim ''hi'' \<noteq> []"
    by (simp add: trim_def isWhiteSpace_def)
  show ?thesis
    using h generateContent_not_running
      [where c = readyClient and this = "close readyClient" and prompt = "''hi''"
         and E = sampleEngine and axios = offline and m = None and chat = None]
    by simp
qed

text \<open>
  C9, as stated, fails: the prompt made of one space is not empty, and on a closed client
  \<^verbatim>\<open>generateContent\<close> throws \<^verbatim>\<open>Prompt cannot be empty\<close>, not
  \<^verbatim>\<open>Client not initialized. Call init() first.\<close>: the test of the prompt comes
  before the test of the client.
\<close>

theorem generateContent_not_running_counterexample:
  "'' '' \<noteq> [] \<and> \<not> running (close readyClient)
   \<and> generateContent sampleEngine offline (close readyClient) '' '' None None
       = Some (Inl (Error ''Prompt cannot be empty''), close readyClient, None, [])"
  by (simp add: generateContent_def close_def trim_def isWhiteSpace_def)

section \<open>Evaluating the decoder\<close>

lemmas lexer_defs =
  jsonParse_def isJsonSpace_def startsWith_def isDigit_def inRange_def charCode_def
  numberLiteral_def validNumber_def validFraction_def validExponent_def dropSign_def
  digitsValue_def isNumberChar_def escapeChar_def hex4_def hexValue_def

lemmas decoder_defs =
  parseResponse_def parseResponseTry_def referenceEngine_def JSON_parse_value_def
  loopTest_def counterLess_def andThen_def tryMainPart_def andGet_def orElse_def
  parseCandidate_def candidateText_def stringReceiver_def cardContentMatch_def
  candidateThoughts_def candidateFileAttachments_def candidateCodeBlocks_def
  fencedBlocks_def fenceAt_def candidateExecutionResult_def candidateFactuality_def
  candidateFactualitySources_def candidateWebImages_def candidateGeneratedImages_def
  iterate_def isArray_def

lemmas loop_simps = findBody.simps candidatesLoop.simps fenceMatches.simps

section \<open>Scenario A\<close>

text \<open>
  C1, as stated, fails: on the text of scenario A the decoder finds no body. The string
  of the one element decodes to an array of four elements, so its index 4 is absent, and
  \<^verbatim>\<open>parseResponse\<close> throws.
\<close>

theorem scenarioA_counterexample:
  "parseResponse sampleEngine readyClient scenarioA
     = Some (Inl (Error ''Failed to parse response: No valid response body found''))"
  by (simp add: scenarioA_def sampleEngine_def lexer_defs decoder_defs loop_simps)

text \<open>
  C1, amended. With any conversions of numbers and any messages of the runtime, decoding
  the text of scenario A throws \<^verbatim>\<open>Failed to parse response: No valid response
  body found\<close>; decoding the text with the candidate list at index 4 returns a result
  with exactly one candidate, whose text is \<^verbatim>\<open>hi\<close> and whose images, code blocks
  and sources are empty.
\<close>

theorem scenarioA_decoded:
  "parseResponse (referenceEngine stn nts msg url) this scenarioA
     = Some (Inl (Error ''Failed to parse response: No valid response body found''))
   \<and> parseResponse (referenceEngine stn nts msg url) this scenarioA_index4
     = Some (Inr \<lparr>rcid = JNum (Fin 0), text' = JStr ''hi'', thoughts = JNull,
                  webImages = [], generatedImages = [], images = [],
                  fileAttachments = [], codeBlocks = [], codeExecutionResult = None,
                  factuality = None, sources = [], outputMetadata = JNull,
                  candidates =
                    [\<lparr>rcid = JNum (Fin 0), text' = JStr ''hi'', thoughts = JNull,
                      webImages = [], generatedImages = [], images = [],
                      fileAttachments = [], codeBlocks = [], codeExecutionResult = None,
                      factuality = None, sources = []\<rparr>]\<rparr>)"
  by (simp add: scenarioA_def scenarioA_index4_def lexer_defs decoder_defs loop_simps)

section \<open>The decoder reads nothing but its text\<close>

lemma fileLoop_this: "fileLoop a chip fs acc = fileLoop b chip fs acc"
  by (induction fs arbitrary: acc) (simp_all add: detectMimeType_def split: jsval.splits sum.splits)

lemma candidateFileAttachments_this:
  "candidateFileAttachments a c t = candidateFileAttachments b c t"
  by (simp add: candidateFileAttachments_def fileLoop_this [of a _ _ _ b]
      cong: sum.case_cong jsval.case_cong)

lemma parseCandidate_this: "parseCandidate E a = parseCandidate E b"
  by (rule ext) (simp add: parseCandidate_def candidateFileAttachments_this [of a _ _ b])

lemma candidatesLoop_this_le:
  assumes h: "candidatesLoop E a body i acc = Some y"
  shows "candidatesLoop E b body i acc = Some y"
proof (rule candidatesLoop.raw_induct
    [where P = "\<lambda>E this body i acc y. candidatesLoop E b body i acc = Some y", OF _ h],
    goal_cases)
  case (1 loop E this body i acc y)
  show ?case
    apply (subst candidatesLoop.simps)
    using 1
    by (auto simp: parseCandidate_this [of _ this b] split: sum.splits if_splits)
qed

lemma candidatesLoop_this:
  "candidatesLoop E a body i acc = candidatesLoop E b body i acc"
proof (cases "candidatesLoop E a body i acc")
  case None
  show ?thesis
  proof (cases "candidatesLoop E b body i acc")
    case None
    with \<open>candidatesLoop E a body i acc = None\<close> show ?thesis by simp
  next
    case (Some y)
    from candidatesLoop_this_le [OF this, of a] None show ?thesis by simp
  qed
next
  case (Some y)
  from candidatesLoop_this_le [OF this, of b] Some show ?thesis by simp
qed

text \<open>
  C10. \<^verbatim>\<open>parseResponse\<close> is a function of the response text (and of the runtime):
  called on two clients in any two states with the same text, it gives the same answer,
  the same result, the same failure, or no return in both. It reads no field of the
  client; the only use of \<^verbatim>\<open>this\<close> is the call of
  \<^verbatim>\<open>detectMimeType\<close>, which reads none either. The two regular expressions
  with the flag \<^verbatim>\<open>g\<close> are created anew for every candidate, so no position of
  a match is carried from one call to the next.
\<close>

theorem parseResponse_deterministic:
  "parseResponse E this1 responseText = parseResponse E this2 responseText"
  by (simp add: parseResponse_def parseResponseTry_def candidatesLoop_this [of _ this1 _ _ _ this2]
      cong: sum.case_cong option.case_cong if_cong)

section \<open>The selection of the body\<close>

lemma loopTest_array: "loopTest E i (JArr xs) = Inr (i < length xs)"
  by (simp add: loopTest_def andThen_def counterLess_def)

lemma tryMainPart_array:
  "i < length xs \<Longrightarrow> tryMainPart E (JArr xs) i = spec_decodedBody E (xs ! i)"
  by (simp add: tryMainPart_def spec_decodedBody_def andThen_def split: sum.splits)

lemma findBody_array:
  "i \<le> length xs \<Longrightarrow>
   findBody E (JArr xs) i
     = Some (Inr (case spec_firstBody E (drop i xs) of Some b \<Rightarrow> b | None \<Rightarrow> JNull))"
proof (induction "length xs - i" arbitrary: i)
  case 0
  then show ?case
    by (subst findBody.simps) (simp add: loopTest_array)
next
  case (Suc n)
  then have lt: "i < length xs" by simp
  have d: "drop i xs = xs ! i # drop (Suc i) xs"
    using lt by (simp add: Cons_nth_drop_Suc)
  have ih: "findBody E (JArr xs) (Suc i)
     = Some (Inr (case spec_firstBody E (drop (Suc i) xs) of Some b \<Rightarrow> b | None \<Rightarrow> JNull))"
    using Suc.hyps(1) [of "Suc i"] Suc.hyps(2) lt by simp
  show ?case
    by (subst findBody.simps)
       (simp add: loopTest_array lt tryMainPart_array d ih split: option.splits)
qed

lemma spec_decodedBody_truthy: "spec_decodedBody E x = Some v \<Longrightarrow> truthy v"
  by (cases v) (auto simp: spec_decodedBody_def split: sum.splits if_splits)

lemma spec_firstBody_truthy: "spec_firstBody E xs = Some v \<Longrightarrow> truthy v"
  by (induction xs) (auto dest: spec_decodedBody_truthy split: option.splits)

lemma candidatesLoop_empty:
  "getIdx body 4 = Inr (JArr []) \<Longrightarrow> candidatesLoop E this body 0 [] = Some (Inr [])"
  by (subst candidatesLoop.simps) (simp add: andThen_def loopTest_array)

text \<open>
  C7. When line 2 of the response decodes to an array, \<^verbatim>\<open>parseResponse\<close>
  scans its elements in order and takes as the body the first value, decoded from the
  index-2 string of an element, whose index-4 field is truthy. When no element gives one
  it throws \<^verbatim>\<open>Failed to parse response: No valid response body found\<close>; when
  the list of candidates of the body is empty it throws \<^verbatim>\<open>Failed to parse
  response: No candidates found in response\<close>; a result that it returns has the
  metadata of that body and at least one candidate.
\<close>

theorem parseResponse_selects_body:
  assumes l: "3 \<le> length (splitOn (CHR 0x0A) responseText)"
    and p: "JSON_parse E (splitOn (CHR 0x0A) responseText ! 2) = Some (JArr elements)"
  shows "findBody E (JArr elements) 0
           = Some (Inr (case spec_firstBody E elements of Some b \<Rightarrow> b | None \<Rightarrow> JNull))
         \<and> (spec_firstBody E elements = None \<longrightarrow>
              parseResponse E this responseText
                = Some (Inl (Error ''Failed to parse response: No valid response body found'')))
         \<and> (\<forall>body. spec_firstBody E elements = Some body \<and> getIdx body 4 = Inr (JArr []) \<longrightarrow>
              parseResponse E this responseText
                = Some (Inl (Error ''Failed to parse response: No candidates found in response'')))
         \<and> (\<forall>body out. spec_firstBody E elements = Some body
                \<and> parseResponse E this responseText = Some (Inr out) \<longrightarrow>
              getIdx body 1 = Inr (outputMetadata out) \<and> candidates out \<noteq> [])"
proof -
  have f: "findBody E (JArr elements) 0
      = Some (Inr (case spec_firstBody E elements of Some b \<Rightarrow> b | None \<Rightarrow> JNull))"
    using findBody_array [of 0 elements E] by simp
  have j: "JSON_parse_value E (JStr (splitOn (CHR 0x0A) responseText ! 2)) = Inr (JArr elements)"
    using p by (simp add: JSON_parse_value_def)
  have n: "\<not> length (splitOn (CHR 0x0A) responseText) < 3"
    using l by simp
  have a: "spec_firstBody E elements = None \<Longrightarrow>
      parseResponse E this responseText
        = Some (Inl (Error ''Failed to parse response: No valid response body found''))"
    by (simp add: parseResponse_def parseResponseTry_def Let_def n j f)
  have b: "spec_firstBody E elements = Some body \<Longrightarrow> getIdx body 4 = Inr (JArr []) \<Longrightarrow>
      parseResponse E this responseText
        = Some (Inl (Error ''Failed to parse response: No candidates found in response''))" for body
    by (simp add: parseResponse_def parseResponseTry_def Let_def n j f spec_firstBody_truthy
        candidatesLoop_empty)
  have c: "spec_firstBody E elements = Some body \<Longrightarrow>
      parseResponse E this responseText = Some (Inr out) \<Longrightarrow>
      getIdx body 1 = Inr (outputMetadata out) \<and> candidates out \<noteq> []" for body out
    by (auto simp: parseResponse_def parseResponseTry_def Let_def n j f spec_firstBody_truthy
        split: option.splits sum.splits list.splits if_splits)
  from f a b c show ?thesis by blast
qed

theorem parseResponse_selects_body_witness:
  "3 \<le> length (splitOn (CHR 0x0A) scenarioA)
   \<and> spec_firstBody sampleEngine
        [JArr [JNull, JNull, JStr (''[null,null,null,[[[0,['' @ [CHR 0x22] @ ''hi'' @ [CHR 0x22] @ '']]]]]'')]] = None
   \<and> parseResponse sampleEngine readyClient scenarioA
       = Some (Inl (Error ''Failed to parse response: No valid response body found''))
   \<and> 3 \<le> length (splitOn (CHR 0x0A) scenarioEmpty)
   \<and> spec_firstBody sampleEngine [JArr [JNull, JNull, JStr ''[1]''], JArr [JNull, JNull, JStr ''[0,0,0,0,[]]'']]
       = Some (JArr [JNum (Fin 0), JNum (Fin 0), JNum (Fin 0), JNum (Fin 0), JArr []])
   \<and> parseResponse sampleEngine readyClient scenarioEmpty
       = Some (Inl (Error ''Failed to parse response: No candidates found in response''))"
proof -
  let ?xs = "[JArr [JNull, JNull, JStr (''[null,null,null,[[[0,['' @ [CHR 0x22] @ ''hi'' @ [CHR 0x22] @ '']]]]]'')]]"
  let ?ys = "[JArr [JNull, JNull, JStr ''[1]''], JArr [JNull, JNull, JStr ''[0,0,0,0,[]]'']]"
  have l1: "3 \<le> length (splitOn (CHR 0x0A) scenarioA)"
    by (simp add: scenarioA_def)
  have p1: "JSON_parse sampleEngine (splitOn (CHR 0x0A) scenarioA ! 2) = Some (JArr ?xs)"
    by (simp add: scenarioA_def sampleEngine_def referenceEngine_def lexer_defs)
  have s1: "spec_firstBody sampleEngine ?xs = None"
    by (simp add: spec_decodedBody_def sampleEngine_def referenceEngine_def JSON_parse_value_def
        lexer_defs)
  have l2: "3 \<le> length (splitOn (CHR 0x0A) scenarioEmpty)"
    by (simp add: scenarioEmpty_def)
  have p2: "JSON_parse sampleEngine (splitOn (CHR 0x0A) scenarioEmpty ! 2) = Some (JArr ?ys)"
    by (simp add: scenarioEmpty_def sampleEngine_def referenceEngine_def lexer_defs)
  have s2: "spec_firstBody sampleEngine ?ys
      = Some (JArr [JNum (Fin 0), JNum (Fin 0), JNum (Fin 0), JNum (Fin 0), JArr []])"
    by (simp add: spec_decodedBody_def sampleEngine_def referenceEngine_def JSON_parse_value_def
        lexer_defs)
  from parseResponse_selects_body [OF l1 p1, of readyClient] s1
    parseResponse_selects_body [OF l2 p2, of readyClient] s2 l1 l2
  show ?thesis by simp
qed

section \<open>Web images and generated images\<close>

lemma candidatesLoop_array:
  "getIdx body 4 = Inr (JArr cs) \<Longrightarrow> i \<le> length cs \<Longrightarrow>
   candidatesLoop E this body i acc = Some (decodeCandidates E this (drop i cs) acc)"
proof (induction "length cs - i" arbitrary: i acc)
  case 0
  then show ?case
    by (subst candidatesLoop.simps) (simp add: andThen_def loopTest_array)
next
  case (Suc n)
  then have lt: "i < length cs" by simp
  have d: "drop i cs = cs ! i # drop (Suc i) cs"
    using lt by (simp add: Cons_nth_drop_Suc)
  have ih: "candidatesLoop E this body (Suc i) acc'
      = Some (decodeCandidates E this (drop (Suc i) cs) acc')" for acc'
    using Suc.hyps(1) [of "Suc i" acc'] Suc.hyps(2) Suc.prems(1) lt by simp
  show ?case
    by (subst candidatesLoop.simps)
       (simp add: andThen_def loopTest_array lt d ih Suc.prems(1) split: sum.splits)
qed

lemma decodeCandidates_fails:
  "k < length cs \<Longrightarrow> parseCandidate E this (cs ! k) = Inl e \<Longrightarrow>
   \<exists>e'. decodeCandidates E this cs acc = Inl e'"
proof (induction cs arbitrary: k acc)
  case Nil
  then show ?case by simp
next
  case (Cons c cs)
  show ?case
  proof (cases k)
    case 0
    with Cons.prems show ?thesis by simp
  next
    case (Suc j)
    with Cons.prems Cons.IH [of j] show ?thesis
      by (auto split: sum.splits)
  qed
qed

lemma parseCandidate_webImages_fail:
  "candidateWebImages c = Inl e \<Longrightarrow> \<exists>e'. parseCandidate E this c = Inl e'"
  by (auto simp: parseCandidate_def andThen_def split: sum.splits)

lemma webImageLoop_acc:
  "webImageLoop [x] [] = Inl e \<Longrightarrow> webImageLoop (x # xs) acc = Inl e"
  by (auto simp: andThen_def split: sum.splits)

lemma webImageLoop_fails:
  "j < length items \<Longrightarrow> webImageLoop [items ! j] [] = Inl e \<Longrightarrow>
   \<exists>e'. webImageLoop items acc = Inl e'"
proof (induction items arbitrary: j acc)
  case Nil
  then show ?case by simp
next
  case (Cons x xs)
  show ?case
  proof (cases j)
    case 0
    with Cons.prems webImageLoop_acc [of x e xs acc] show ?thesis by auto
  next
    case (Suc i)
    with Cons.prems Cons.IH [of i] show ?thesis
      by (auto simp: andThen_def split: sum.splits)
  qed
qed

lemma generatedImageLoop_kept:
  "generatedImageLoop E items acc = acc @ List.map_filter (keptImage E) items"
  by (induction items arbitrary: acc)
     (simp_all add: keptImage_def List.map_filter_simps split: sum.splits)

text \<open>
  C2, amended. For a candidate: when \<^verbatim>\<open>candidate[12]\<close> or
  \<^verbatim>\<open>candidate[12][1]\<close> is falsy the list of web images is empty and nothing is
  thrown. When the list is there, an entry whose fields cannot be read makes the
  extraction throw, and with it the whole of \<^verbatim>\<open>parseResponse\<close>: the only guard
  is the test of the list, there is none per entry and none around the loop. For the
  generated images of an array \<^verbatim>\<open>candidate[12][7][0]\<close> nothing is thrown: the
  result holds the images of the items that can be read, in order, and the others are
  skipped.
\<close>

theorem image_lists:
  "(getIdx c0 12 = Inr a0 \<and> \<not> truthy a0 \<longrightarrow> candidateWebImages c0 = Inr [])
   \<and> (getIdx c1 12 = Inr a1 \<and> truthy a1 \<and> getIdx a1 1 = Inr l1 \<and> \<not> truthy l1 \<longrightarrow>
        candidateWebImages c1 = Inr [])
   \<and> (getIdx c2 12 = Inr a2 \<and> truthy a2 \<and> getIdx a2 1 = Inr (JArr items)
        \<and> j < length items \<and> webImageLoop [items ! j] [] = Inl e \<longrightarrow>
        (\<exists>e'. candidateWebImages c2 = Inl e'))
   \<and> (3 \<le> length (splitOn (CHR 0x0A) responseText)
        \<and> JSON_parse E (splitOn (CHR 0x0A) responseText ! 2) = Some (JArr elements)
        \<and> spec_firstBody E elements = Some body \<and> getIdx body 4 = Inr (JArr cs)
        \<and> k < length cs \<and> candidateWebImages (cs ! k) = Inl e2 \<longrightarrow>
        (\<exists>m. parseResponse E this responseText
               = Some (Inl (Error (''Failed to parse response: '' @ m)))))
   \<and> (getIdx c3 12 = Inr a3 \<and> truthy a3 \<and> getIdx a3 7 = Inr b3 \<and> truthy b3
        \<and> getIdx b3 0 = Inr (JArr gens) \<longrightarrow>
        candidateGeneratedImages E c3 = Inr (List.map_filter (keptImage E) gens))"
proof -
  have p1: "getIdx c0 12 = Inr a0 \<Longrightarrow> \<not> truthy a0 \<Longrightarrow> candidateWebImages c0 = Inr []"
    by (simp add: candidateWebImages_def andThen_def andGet_def)
  have p2: "getIdx c1 12 = Inr a1 \<Longrightarrow> truthy a1 \<Longrightarrow> getIdx a1 1 = Inr l1 \<Longrightarrow> \<not> truthy l1 \<Longrightarrow>
      candidateWebImages c1 = Inr []"
    by (simp add: candidateWebImages_def andThen_def andGet_def)
  have p3: "\<exists>e'. candidateWebImages c2 = Inl e'"
    if "getIdx c2 12 = Inr a2" "truthy a2" "getIdx a2 1 = Inr (JArr items)"
      "j < length items" "webImageLoop [items ! j] [] = Inl e"
    using that webImageLoop_fails [of j items e "[]"]
    by (auto simp: candidateWebImages_def andThen_def andGet_def iterate_def)
  have p4: "\<exists>m. parseResponse E this responseText
               = Some (Inl (Error (''Failed to parse response: '' @ m)))"
    if l: "3 \<le> length (splitOn (CHR 0x0A) responseText)"
      and p: "JSON_parse E (splitOn (CHR 0x0A) responseText ! 2) = Some (JArr elements)"
      and s: "spec_firstBody E elements = Some body" and b: "getIdx body 4 = Inr (JArr cs)"
      and k: "k < length cs" and w: "candidateWebImages (cs ! k) = Inl e2"
  proof -
    from w obtain e3 where "parseCandidate E this (cs ! k) = Inl e3"
      using parseCandidate_webImages_fail by blast
    with k obtain e4 where d: "decodeCandidates E this cs [] = Inl e4"
      using decodeCandidates_fails by blast
    have c: "candidatesLoop E this body 0 [] = Some (Inl e4)"
      using candidatesLoop_array [OF b, of 0 E this "[]"] d by simp
    have f: "findBody E (JArr elements) 0 = Some (Inr body)"
      using findBody_array [of 0 elements E] s by simp
    have j: "JSON_parse_value E (JStr (splitOn (CHR 0x0A) responseText ! 2)) = Inr (JArr elements)"
      using p by (simp add: JSON_parse_value_def)
    have n: "\<not> length (splitOn (CHR 0x0A) responseText) < 3"
      using l by simp
    show ?thesis
      by (simp add: parseResponse_def parseResponseTry_def Let_def n j f c
          spec_firstBody_truthy [OF s])
  qed
  have p5: "candidateGeneratedImages E c3 = Inr (List.map_filter (keptImage E) gens)"
    if "getIdx c3 12 = Inr a3" "truthy a3" "getIdx a3 7 = Inr b3" "truthy b3"
      "getIdx b3 0 = Inr (JArr gens)"
    using that
    by (simp add: candidateGeneratedImages_def andThen_def andGet_def iterate_def
        generatedImageLoop_kept)
  from p1 p2 p3 p4 p5 show ?thesis by blast
qed

text \<open>
  C2, as stated, fails: one malformed entry in the list of web images of a candidate and
  the decoder returns no result at all, the failure is not confined to that list. (The
  message after the prefix is the one of the TypeError, here the message of the sample
  engine.)
\<close>

theorem image_lists_counterexample:
  "parseResponse sampleEngine readyClient scenarioWebImage
     = Some (Inl (Error ''Failed to parse response: engine error''))"
  by (simp add: scenarioWebImage_def sampleEngine_def lexer_defs decoder_defs loop_simps)

theorem image_lists_witness:
  "candidateWebImages candidateNoImages = Inr []
   \<and> candidateWebImages candidateEmptyList = Inr []
   \<and> webImageLoop [JArr []] [] = Inl TypeError
   \<and> (\<exists>e'. candidateWebImages candidateBadWebImage = Inl e')
   \<and> (\<exists>m. parseResponse sampleEngine readyClient scenarioWebImage
            = Some (Inl (Error (''Failed to parse response: '' @ m))))
   \<and> candidateGeneratedImages sampleEngine candidateGenerated
       = Inr [\<lparr>imageType = ''generated_image'', imageUrl = JStr ''u'',
               imageTitle = JStr ''Generated Image'', imageAlt = JStr []\<rparr>]"
proof -
  let ?body = "JArr [JNull, JNull, JNull, JNull, JArr [candidateBadWebImage]]"
  let ?inner = "''[null,null,null,null,[[0,['' @ [CHR 0x22] @ ''hi'' @ [CHR 0x22]
     @ ''],null,null,null,null,null,null,null,null,null,null,[null,[[]]]]]]''"
  have h0: "getIdx candidateNoImages 12 = Inr JUndefined \<and> \<not> truthy JUndefined"
    by (simp add: candidateNoImages_def)
  have h1: "getIdx candidateEmptyList 12 = Inr (JArr [JNull]) \<and> truthy (JArr [JNull])
      \<and> getIdx (JArr [JNull]) 1 = Inr JUndefined \<and> \<not> truthy JUndefined"
    by (simp add: candidateEmptyList_def)
  have w: "webImageLoop [JArr []] [] = Inl TypeError"
    by (simp add: andThen_def)
  have h2: "getIdx candidateBadWebImage 12 = Inr (JArr [JNull, JArr [JArr []]])
      \<and> truthy (JArr [JNull, JArr [JArr []]])
      \<and> getIdx (JArr [JNull, JArr [JArr []]]) 1 = Inr (JArr [JArr []])
      \<and> (0::nat) < length [JArr []] \<and> webImageLoop [[JArr []] ! 0] [] = Inl TypeError"
    by (simp add: candidateBadWebImage_def andThen_def)
  have h3: "3 \<le> length (splitOn (CHR 0x0A) scenarioWebImage)
      \<and> JSON_parse sampleEngine (splitOn (CHR 0x0A) scenarioWebImage ! 2)
          = Some (JArr [JArr [JNull, JNull, JStr ?inner]])"
    by (simp add: scenarioWebImage_def sampleEngine_def referenceEngine_def lexer_defs)
  have h4: "spec_firstBody sampleEngine [JArr [JNull, JNull, JStr ?inner]] = Some ?body
      \<and> getIdx ?body 4 = Inr (JArr [candidateBadWebImage])
      \<and> (0::nat) < length [candidateBadWebImage]"
    by (simp add: spec_decodedBody_def sampleEngine_def referenceEngine_def JSON_parse_value_def
        lexer_defs candidateBadWebImage_def)
  have h5: "candidateWebImages ([candidateBadWebImage] ! 0) = Inl TypeError"
    by (simp add: candidateBadWebImage_def candidateWebImages_def andThen_def andGet_def
        iterate_def)
  have h6: "getIdx candidateGenerated 12
        = Inr (JArr [JNull, JNull, JNull, JNull, JNull, JNull, JNull, JArr [JArr generatedItems]])
      \<and> getIdx (JArr [JNull, JNull, JNull, JNull, JNull, JNull, JNull, JArr [JArr generatedItems]]) 7
        = Inr (JArr [JArr generatedItems])
      \<and> getIdx (JArr [JArr generatedItems]) 0 = Inr (JArr generatedItems)"
    by (simp add: candidateGenerated_def)
  have h7: "List.map_filter (keptImage sampleEngine) generatedItems
      = [\<lparr>imageType = ''generated_image'', imageUrl = JStr ''u'',
          imageTitle = JStr ''Generated Image'', imageAlt = JStr []\<rparr>]"
    by (simp add: generatedItems_def keptImage_def generatedImage_def andThen_def andGet_def
        List.map_filter_simps)
  from image_lists
    [where ?c0.0 = candidateNoImages and ?a0.0 = JUndefined
       and ?c1.0 = candidateEmptyList and ?a1.0 = "JArr [JNull]" and ?l1.0 = JUndefined
       and ?c2.0 = candidateBadWebImage and ?a2.0 = "JArr [JNull, JArr [JArr []]]"
       and items = "[JArr []]" and j = 0 and e = TypeError
       and responseText = scenarioWebImage and E = sampleEngine
       and elements = "[JArr [JNull, JNull, JStr ?inner]]" and body = ?body
       and cs = "[candidateBadWebImage]" and k = 0 and ?e2.0 = TypeError and this = readyClient
       and ?c3.0 = candidateGenerated
       and ?a3.0 = "JArr [JNull, JNull, JNull, JNull, JNull, JNull, JNull, JArr [JArr generatedItems]]"
       and ?b3.0 = "JArr [JArr generatedItems]" and gens = generatedItems]
    h0 h1 w h2 h3 h4 h5 h6 h7
  show ?thesis by simp
qed

section \<open>Code blocks\<close>



lemma fenceAt_no_backtick: "c \<noteq> CHR 0x60 \<Longrightarrow> fenceAt (c # s) = None"
  by (auto simp: fenceAt_def startsWith_def)

lemma fenceMatches_skip:
  "list_all (\<lambda>x. x \<noteq> CHR 0x60) pre \<Longrightarrow> fenceMatches (pre @ s) = fenceMatches s"
proof (induction pre)
  case Nil
  then show ?case by simp
next
  case (Cons c pre)
  then have "fenceMatches ((c # pre) @ s) = fenceMatches (pre @ s)"
    by (subst fenceMatches.simps) (simp add: fenceAt_no_backtick)
  with Cons show ?case by simp
qed

lemma fenceMatches_Nil: "fenceMatches [] = []"
  by (subst fenceMatches.simps) (simp add: fenceAt_def startsWith_def)

lemma fenceMatches_no_backtick:
  "list_all (\<lambda>x. x \<noteq> CHR 0x60) s \<Longrightarrow> fenceMatches s = []"
  using fenceMatches_skip [of s "[]"] fenceMatches_Nil by simp

lemma includes_no_backtick:
  "list_all (\<lambda>x. x \<noteq> CHR 0x60) s \<Longrightarrow> \<not> includes' s ''```''"
  by (induction s) (auto simp: startsWith_def)










section \<open>\<^verbatim>\<open>setMetadata\<close>\<close>

lemma setIdx_prefix:
  assumes "i < length T"
  shows "setIdx (JArr (take i T @ drop i slots)) i (T ! i)
           = Inr (JArr (take (Suc i) T @ drop (Suc i) slots))"
proof (cases "i < length slots")
  case True
  have "(take i T @ drop i slots)[i := T ! i] = take i T @ (drop i slots)[0 := T ! i]"
    using assms by (simp add: list_update_append)
  also have "(drop i slots)[0 := T ! i] = T ! i # drop (Suc i) slots"
    using True by (simp add: Cons_nth_drop_Suc [symmetric])
  finally show ?thesis
    using assms True by (simp add: take_Suc_conv_app_nth)
next
  case False
  then show ?thesis
    using assms by (simp add: take_Suc_conv_app_nth)
qed

lemma setMetadataLoop_array:
  "i \<le> length T \<Longrightarrow> metadata this = JArr (take i T @ drop i slots) \<Longrightarrow>
   \<exists>this'. setMetadataLoop E this (JArr T) i = Some (None, this')
     \<and> metadata this' = JArr (T @ drop (length T) slots) \<and> model this' = model this"
proof (induction "length T - i" arbitrary: i this)
  case 0
  then show ?case
    by (subst setMetadataLoop.simps) (simp add: loopTest_array)
next
  case (Suc n)
  then have lt: "i < length T" by simp
  define next' where
    "next' = this\<lparr>metadata := JArr (take (Suc i) T @ drop (Suc i) slots),
                 lastOutput := map_option (\<lambda>out. out\<lparr>outputMetadata :=
                   JArr (take (Suc i) T @ drop (Suc i) slots)\<rparr>) (lastOutput this)\<rparr>"
  have st: "andThen (getIdx (JArr T) i) (storeSlot this i) = Inr next'"
    using lt Suc.prems(2) setIdx_prefix [OF lt, of slots]
    by (simp add: andThen_def storeSlot_def next'_def)
  have "\<exists>this'. setMetadataLoop E next' (JArr T) (Suc i) = Some (None, this')
     \<and> metadata this' = JArr (T @ drop (length T) slots) \<and> model this' = model next'"
    using Suc.hyps(1) [of "Suc i" next'] Suc.hyps(2) lt by (simp add: next'_def)
  then obtain this' where r: "setMetadataLoop E next' (JArr T) (Suc i) = Some (None, this')"
    and m: "metadata this' = JArr (T @ drop (length T) slots)" and o: "model this' = model next'"
    by blast
  have "setMetadataLoop E this (JArr T) i = Some (None, this')"
    apply (subst setMetadataLoop.simps)
    using st r lt by (simp add: loopTest_array)
  with m o show ?case
    by (auto simp: next'_def)
qed

lemma exceeds_length: "andThen (getLength (JArr T)) (\<lambda>l. exceeds E l 3) = Inr (3 < length T)"
proof -
  have "((3::rat) < of_nat (length T)) = (3 < length T)"
    using of_nat_less_iff [where ?'a = rat, of 3 "length T"] by simp
  then show ?thesis
    by (simp add: andThen_def exceeds_def)
qed

text \<open>
  C4. On a session whose pointer is an array of three slots, \<^verbatim>\<open>setMetadata\<close>
  with an array \<open>T\<close> of at most three elements returns, and the pointer is then \<open>T\<close>
  followed by the slots that \<open>T\<close> does not reach, unchanged: a read of slot \<open>i\<close> gives
  \<open>T ! i\<close> below the length of \<open>T\<close> and the old slot from there on. With an array of
  more than three elements it throws \<^verbatim>\<open>Metadata cannot exceed 3 elements\<close> and
  the session is as before.
\<close>

theorem setMetadata_prefix:
  "metadata this = JArr slots \<and> length slots = 3 \<longrightarrow>
     (length T \<le> 3 \<longrightarrow>
        (\<exists>this'. setMetadata E this (JArr T) = Some (None, this')
           \<and> metadata this' = JArr (T @ drop (length T) slots)
           \<and> (\<forall>i. i < 3 \<longrightarrow>
                 getIdx (metadata this') i = Inr (if i < length T then T ! i else slots ! i))
           \<and> model this' = model this))
     \<and> (3 < length T \<longrightarrow>
          setMetadata E this (JArr T)
            = Some (Some (Error ''Metadata cannot exceed 3 elements''), this))"
proof (intro impI conjI)
  assume a: "metadata this = JArr slots \<and> length slots = 3" and b: "length T \<le> 3"
  from a have "metadata this = JArr (take 0 T @ drop 0 slots)" by simp
  from setMetadataLoop_array [OF _ this, of E]
  obtain this' where r: "setMetadataLoop E this (JArr T) 0 = Some (None, this')"
    and m: "metadata this' = JArr (T @ drop (length T) slots)" and o: "model this' = model this"
    by auto
  have s: "setMetadata E this (JArr T) = Some (None, this')"
    using b r exceeds_length [of T E] by (simp add: setMetadata_def)
  have g: "getIdx (metadata this') i = Inr (if i < length T then T ! i else slots ! i)"
    if "i < 3" for i
    using that a b m by (auto simp: nth_append)
  from s m o g
  show "\<exists>this'. setMetadata E this (JArr T) = Some (None, this')
           \<and> metadata this' = JArr (T @ drop (length T) slots)
           \<and> (\<forall>i. i < 3 \<longrightarrow>
                 getIdx (metadata this') i = Inr (if i < length T then T ! i else slots ! i))
           \<and> model this' = model this"
    by blast
next
  assume "3 < length T"
  then show "setMetadata E this (JArr T)
      = Some (Some (Error ''Metadata cannot exceed 3 elements''), this)"
    using exceeds_length [of T E] by (simp add: setMetadata_def)
qed

theorem setMetadata_prefix_witness:
  "metadata freshChat = JArr [JNull, JNull, JNull]
   \<and> (\<exists>this'. setMetadata sampleEngine freshChat (JArr [JStr ''c'', JStr ''r'']) = Some (None, this')
        \<and> metadata this' = JArr [JStr ''c'', JStr ''r'', JNull])
   \<and> setMetadata sampleEngine freshChat (JArr [JStr ''c'', JStr ''r'', JStr ''rc'', JStr ''x''])
       = Some (Some (Error ''Metadata cannot exceed 3 elements''), freshChat)"
proof -
  have h: "metadata freshChat = JArr [JNull, JNull, JNull] \<and> length [JNull, JNull, JNull] = 3"
    by (simp add: freshChat_def)
  from setMetadata_prefix [of freshChat "[JNull, JNull, JNull]" "[JStr ''c'', JStr ''r'']" sampleEngine]
    setMetadata_prefix [of freshChat "[JNull, JNull, JNull]"
      "[JStr ''c'', JStr ''r'', JStr ''rc'', JStr ''x'']" sampleEngine] h
  show ?thesis by auto
qed

section \<open>\<^verbatim>\<open>chooseCandidate\<close>\<close>

text \<open>
  C5, at an index below zero. \<^verbatim>\<open>chooseCandidate\<close> tests only
  \<^verbatim>\<open>index >= candidates.length\<close>: with \<^verbatim>\<open>-1\<close> the read of the array
  gives \<^verbatim>\<open>undefined\<close>, and the read of its \<^verbatim>\<open>rcid\<close> throws a
  TypeError, not the error of an index out of range. The session is as before.
\<close>

theorem chooseCandidate_negative_index:
  "chooseCandidate chatAfterTurn (- 1) = (Inl TypeError, chatAfterTurn)"
  by (simp add: chooseCandidate_def chatAfterTurn_def twoCandidates_def elementAt_def)

text \<open>
  The four cases of \<^verbatim>\<open>chooseCandidate\<close>: no last output; an index at or above
  the number of candidates; an index below zero; an index of a candidate, on a pointer
  that is an array. In the last one the call returns the last output with the fields of
  the chosen candidate at the top level, and slot 2 of the pointer is its
  \<^verbatim>\<open>rcid\<close>.
\<close>

lemma chooseCandidate_cases:
  "(lastOutput this = None \<longrightarrow>
      chooseCandidate this i = (Inl (Error ''No previous output in this chat session''), this))
   \<and> (lastOutput this = Some out \<and> int (length (candidates out)) \<le> i \<longrightarrow>
      chooseCandidate this i
        = (Inl (Error (''Index '' @ showInt i @ '' exceeds number of candidates'')), this))
   \<and> (lastOutput this = Some out \<and> i < 0 \<longrightarrow> chooseCandidate this i = (Inl TypeError, this))
   \<and> (lastOutput this = Some out \<and> metadata this = JArr slots
        \<and> 0 \<le> i \<and> i < int (length (candidates out)) \<longrightarrow>
      (\<exists>r this'. chooseCandidate this i = (Inr r, this')
         \<and> getIdx (metadata this') 2 = Inr (rcid (candidates out ! nat i))
         \<and> lastOutput this' = Some (out\<lparr>outputMetadata := metadata this'\<rparr>)
         \<and> outputMetadata r = metadata this' \<and> candidates r = candidates out
         \<and> candidate.truncate r = candidates out ! nat i
         \<and> model this' = model this))"
  by (auto simp: chooseCandidate_def elementAt_def storeSlot_def andThen_def candidate.truncate_def
      nth_append)

section \<open>The pointer after a turn\<close>

text \<open>
  C6, on a response whose metadata has four elements. \<^verbatim>\<open>generateContent\<close>
  assigns \<^verbatim>\<open>chat.metadata = output.metadata\<close> without going through
  \<^verbatim>\<open>setMetadata\<close>: the call returns, and the pointer of the session has four
  slots, the four elements of the response with the \<^verbatim>\<open>rcid\<close> in slot 2.
\<close>

theorem generateContent_four_slots:
  "returned (generateContent sampleEngine (replyWith scenarioFourSlots) readyClient ''hello'' None
      (Some freshChat))
   \<and> pointerAfter (generateContent sampleEngine (replyWith scenarioFourSlots) readyClient ''hello''
        None (Some freshChat))
       = Some (JArr [JStr ''c'', JStr ''r'', JStr ''rc0'', JStr ''x''])"
  by (simp add: returned_def pointerAfter_def generateContent_def trim_def isWhiteSpace_def
      readyClient_def GeminiClient_def buildConfig_def replyWith_def updateChat_def storeSlot_def
      freshChat_def scenarioFourSlots_def sampleEngine_def lexer_defs decoder_defs loop_simps)

text \<open>
  The update of the session after a turn, for a metadata array of any length: the pointer
  has as many slots as the array, and three when the array is shorter. A write of one
  slot of a pointer keeps its length.
\<close>

lemma updateChat_slots:
  "outputMetadata out = JArr m \<Longrightarrow>
   \<exists>out' chat' slots. updateChat chat out = (Inr out', chat') \<and> metadata chat' = JArr slots
     \<and> outputMetadata out' = JArr slots \<and> lastOutput chat' = Some out'
     \<and> length slots = max 3 (length m) \<and> slots ! 2 = rcid out"
  by (auto simp: updateChat_def storeSlot_def andThen_def nth_append)

lemma storeSlot_slots:
  "metadata this = JArr slots \<Longrightarrow> i < length slots \<Longrightarrow>
   \<exists>this'. storeSlot this i v = Inr this' \<and> metadata this' = JArr (slots[i := v])"
  by (simp add: storeSlot_def andThen_def)

section \<open>A search that does not return\<close>

text \<open>
  Why the loops are partial: when line 2 decodes to an object whose
  \<^verbatim>\<open>length\<close> is infinite (the text \<^verbatim>\<open>{"length":1e999}\<close>), every round
  of the search for the body throws and is caught, and the test of the loop never fails.
\<close>

lemma decimal_last: "last (decimal n) = digitChar (n mod 10)"
  by (subst decimal.simps) simp

lemma decimal_not_length: "decimal n \<noteq> ''length''"
proof
  assume "decimal n = ''length''"
  then have "last (decimal n) = CHR ''h''" by simp
  then have "digitChar (n mod 10) = CHR ''h''" by (simp add: decimal_last)
  then have "of_char (digitChar (n mod 10)) = (of_char (CHR ''h'') :: nat)" by simp
  moreover have "n mod 10 < 10" by simp
  ultimately show False
    by (simp add: digitChar_def)
qed

lemma findBody_endless_some:
  assumes h: "findBody E responseJson i = Some y"
  shows "responseJson \<noteq> JObj [(''length'', JNum PosInf)]"
proof (rule findBody.raw_induct
    [where P = "\<lambda>E responseJson i y. responseJson \<noteq> JObj [(''length'', JNum PosInf)]", OF _ h],
    goal_cases)
  case (1 search E responseJson i y)
  show ?case
  proof
    assume r: "responseJson = JObj [(''length'', JNum PosInf)]"
    have t: "tryMainPart E responseJson i = None"
      using decimal_not_length [of i] by (simp add: r tryMainPart_def andThen_def)
    have l: "loopTest E i responseJson = Inr True"
      by (simp add: r loopTest_def andThen_def counterLess_def)
    from 1(2) have "search E responseJson (i + 1) = Some y"
      by (simp add: t l)
    from 1(1) [OF this] r show False by simp
  qed
qed

lemma findBody_endless: "findBody E (JObj [(''length'', JNum PosInf)]) 0 = None"
  using findBody_endless_some [of E "JObj [(''length'', JNum PosInf)]" 0]
  by (cases "findBody E (JObj [(''length'', JNum PosInf)]) 0") auto

section \<open>The operations that keep three slots\<close>

text \<open>
  On a pointer that is an array of three slots, a write of one of the three slots (the
  setters of \<^verbatim>\<open>cid\<close>, \<^verbatim>\<open>rid\<close> and \<^verbatim>\<open>rcid\<close>),
  \<^verbatim>\<open>setMetadata\<close> with any array and \<^verbatim>\<open>chooseCandidate\<close> with any index
  leave an array of three slots, whether they return or throw; and a session that the
  constructor returns has three slots.
\<close>

lemma storeSlot_three:
  "metadata this = JArr slots \<Longrightarrow> length slots = 3 \<Longrightarrow> i < 3 \<Longrightarrow>
   \<exists>this' slots'. storeSlot this i v = Inr this' \<and> metadata this' = JArr slots'
     \<and> length slots' = 3"
  by (simp add: storeSlot_def andThen_def)

lemma setMetadata_three:
  assumes m: "metadata this = JArr slots" and l: "length slots = 3"
  shows "\<exists>r this' slots'. setMetadata E this (JArr T) = Some (r, this')
           \<and> metadata this' = JArr slots' \<and> length slots' = 3"
proof (cases "3 < length T")
  case True
  then show ?thesis
    using m l exceeds_length [of T E] by (simp add: setMetadata_def)
next
  case False
  from m have "metadata this = JArr (take 0 T @ drop 0 slots)" by simp
  from setMetadataLoop_array [OF _ this, of E]
  obtain this' where "setMetadataLoop E this (JArr T) 0 = Some (None, this')"
    and "metadata this' = JArr (T @ drop (length T) slots)"
    by auto
  with False l show ?thesis
    using exceeds_length [of T E] by (auto simp: setMetadata_def)
qed

lemma chooseCandidate_three:
  "metadata this = JArr slots \<Longrightarrow> length slots = 3 \<Longrightarrow>
   \<exists>slots'. metadata (snd (chooseCandidate this i)) = JArr slots' \<and> length slots' = 3"
  by (auto simp: chooseCandidate_def storeSlot_def andThen_def split: option.splits)

lemma newChatSession_three:
  "optMetadata options = JArr T \<or> \<not> truthy (optMetadata options) \<Longrightarrow>
   newChatSession E options = Some (Inr this) \<Longrightarrow>
   \<exists>slots. metadata this = JArr slots \<and> length slots = 3"
proof -
  assume o: "optMetadata options = JArr T \<or> \<not> truthy (optMetadata options)"
    and n: "newChatSession E options = Some (Inr this)"
  define start where
    "start = \<lparr>metadata = JArr [JNull, JNull, JNull], lastOutput = None,
              model = (case optModel options of Some m \<Rightarrow> m | None \<Rightarrow> Models_UNSPECIFIED)\<rparr>"
  have s: "metadata start = JArr [JNull, JNull, JNull]" "length [JNull, JNull, JNull] = 3"
    by (simp_all add: start_def)
  have k: "\<exists>slots. metadata c = JArr slots \<and> length slots = 3"
    if "andThen (storeIfTruthy 0 (optCid options) b) (\<lambda>a.
          andThen (storeIfTruthy 1 (optRid options) a) (\<lambda>b.
            storeIfTruthy 2 (optRcid options) b)) = Inr c"
      and "metadata b = JArr slots0" and "length slots0 = 3" for b c slots0
    using that
    by (auto simp: andThen_def storeIfTruthy_def storeSlot_def split: sum.splits if_splits)
  show ?thesis
  proof (cases "truthy (optMetadata options)")
    case False
    with n k [of start this "[JNull, JNull, JNull]"] show ?thesis
      by (simp add: newChatSession_def start_def [symmetric] Let_def s)
  next
    case True
    with o have a: "optMetadata options = JArr T" by blast
    from setMetadata_three [OF s(1) s(2), of E T]
    obtain r b slots' where sm: "setMetadata E start (JArr T) = Some (r, b)"
      and mb: "metadata b = JArr slots'" and lb: "length slots' = 3"
      by blast
    from n True a sm have "r = None"
      by (cases r) (simp_all add: newChatSession_def start_def [symmetric] Let_def)
    with n True a sm k [of b this slots'] mb lb show ?thesis
      by (simp add: newChatSession_def start_def [symmetric] Let_def)
  qed
qed

end
